theory Spec2Isabelle
  imports Complex_Main "HOL-Library.Sublist" "HOL-Library.Multiset"
begin

section \<open>Home-hospital scheduling: the assignment and scheduling core\<close>

text \<open>
  A shallow embedding of \<^verbatim>\<open>src/services/timeSlotOptimizer.js\<close>, \<^verbatim>\<open>src/services/geoUtils.js\<close>
  and the reassign handler of \<^verbatim>\<open>src/routes/assignments.js\<close>.

  Conventions of the embedding.
  \<^item> A JavaScript string is a \<open>string\<close>; \<open>null\<close>/\<open>undefined\<close> is \<open>None\<close> of an option type.
  \<^item> Numbers that the code only adds, multiplies by constants and compares (minutes, counts)
    are natural numbers. Coordinates and distances are real numbers, which idealises the
    doubles of the source: the rounding of each operation is not represented, and there is
    no NaN among them. No property below depends on the value of a distance or of a travel
    time computed from coordinates.
  \<^item> An object literal used as a lookup table is an association list of its own keys. A key
    that names a member inherited from \<open>Object.prototype\<close> is written out for the duration
    table, where the looked-up text is free (the care type); the zone tables are read with
    zone names only.
  \<^item> The store (Supabase) is a record of tables. Every call to it may fail; which calls fail
    is given by a list of outcomes that the calls consume in order. An operation is a
    function on the store; requests that overlap in time are modelled where a property
    depends on them, by cutting an operation at a store call.
  \<^item> Time stamps taken from the wall clock (\<open>assignment_date\<close>, \<open>updated_at\<close>) are left out.
\<close>

subsection \<open>Strings\<close>

text \<open>\<open>String.prototype.toLowerCase\<close> on the letters A to Z; other characters are kept.\<close>

definition lower_char :: "char \<Rightarrow> char" where
  "lower_char c =
     (let n = (of_char c :: nat) in if 65 \<le> n \<and> n \<le> 90 then char_of (n + 32) else c)"

definition toLowerCase :: "string \<Rightarrow> string" where
  "toLowerCase s = map lower_char s"

text \<open>\<open>s.includes(t)\<close>: \<open>t\<close> occurs in \<open>s\<close> as a contiguous piece.\<close>

fun includes_str :: "string \<Rightarrow> string \<Rightarrow> bool" where
  "includes_str [] t = (t = [])"
| "includes_str (c # s) t = (prefix t (c # s) \<or> includes_str s t)"

text \<open>\<open>s.split(':')\<close>: the pieces between colons; always at least one piece.\<close>

fun split_colon :: "string \<Rightarrow> string list" where
  "split_colon [] = [[]]"
| "split_colon (c # cs) =
     (if c = CHR '':'' then [] # split_colon cs
      else (case split_colon cs of
              [] \<Rightarrow> [[c]]
            | f # fs \<Rightarrow> (c # f) # fs))"

definition is_digit :: "char \<Rightarrow> bool" where
  "is_digit c = (let n = (of_char c :: nat) in 48 \<le> n \<and> n \<le> 57)"

definition digit_value :: "char \<Rightarrow> nat" where
  "digit_value c = of_char c - 48"

definition digit_char :: "nat \<Rightarrow> char" where
  "digit_char d = char_of (48 + d)"

text \<open>
  \<open>Number(s)\<close> for the strings a clock time is made of: a run of decimal digits is its
  value and the empty string is 0. Every other string is read as NaN (\<open>None\<close>); JavaScript
  also accepts signs, fractions, exponents, radix prefixes and surrounding blanks, which a
  time of day does not contain.
\<close>

definition js_Number :: "string \<Rightarrow> nat option" where
  "js_Number s =
     (if list_all is_digit s then Some (foldl (\<lambda>acc c. acc * 10 + digit_value c) 0 s)
      else None)"

text \<open>\<open>n.toString()\<close> for a natural number \<open>n\<close>, in decimal.\<close>

fun toString_nat :: "nat \<Rightarrow> string" where
  "toString_nat n =
     (if n < 10 then [digit_char n] else toString_nat (n div 10) @ [digit_char (n mod 10)])"

declare toString_nat.simps [simp del]

text \<open>\<open>NaN.toString()\<close> is the text NaN.\<close>

definition toString_num :: "nat option \<Rightarrow> string" where
  "toString_num x = (case x of None \<Rightarrow> ''NaN'' | Some n \<Rightarrow> toString_nat n)"

text \<open>\<open>s.padStart(2, '0')\<close>.\<close>

definition padStart2 :: "string \<Rightarrow> string" where
  "padStart2 s = replicate (2 - length s) (CHR ''0'') @ s"

subsection \<open>Lookup tables of the optimizer\<close>

definition CARE_SPECIALTY_MAP :: "(string \<times> string list) list" where
  "CARE_SPECIALTY_MAP =
    [(''wound dressing'', [''Wound Care'', ''Wound Care Specialist'', ''Post-operative Care'', ''Nursing Care'']),
     (''wound care'', [''Wound Care'', ''Wound Care Specialist'', ''Post-operative Care'', ''Nursing Care'']),
     (''post-operative care'', [''Post-operative Care'', ''Wound Care'', ''Nursing Care'', ''Acute Care'']),
     (''iv therapy'', [''IV Therapy Specialist'', ''Nursing Care'', ''Acute Care'']),
     (''medication administration'', [''Medication Administration'', ''Medication Management'', ''Nursing Care'']),
     (''palliative care'', [''Palliative Care'', ''Elderly Care'', ''Nursing Care'']),
     (''respiratory care'', [''Respiratory Care'', ''Pulmonology'', ''Nursing Care'']),
     (''diabetic care'', [''Diabetic Care'', ''Chronic Disease Management'', ''Endocrinology'']),
     (''elderly care'', [''Elderly Care'', ''Home Health Aide'', ''Nursing Care'', ''Geriatric Care'']),
     (''home health aide'', [''Home Health Aide'', ''Nursing Care'', ''Elderly Care'']),
     (''nursing care'', [''Nursing Care'', ''Home Health Aide'', ''Medication Administration'']),
     (''physical therapy'', [''Physical Therapy'', ''Rehabilitation'', ''Occupational Therapy'']),
     (''chronic disease management'', [''Chronic Disease Management'', ''Nursing Care'']),
     (''cardiac care'', [''Cardiac Care'', ''Cardiology'', ''Cardiovascular Assessment'']),
     (''general checkup'', [''Home Health Aide'', ''Nursing Care'', ''General Practice''])]"

definition CARE_DURATION :: "(string \<times> nat) list" where
  "CARE_DURATION =
    [(''Wound Dressing'', 45),
     (''Wound Care Specialist'', 45),
     (''Post-operative Care'', 60),
     (''IV Therapy Specialist'', 45),
     (''Medication Administration'', 30),
     (''Palliative Care'', 60),
     (''Respiratory Care'', 45),
     (''Diabetic Care'', 40),
     (''Elderly Care'', 50),
     (''Home Health Aide'', 45),
     (''Nursing Care'', 50),
     (''Physical Therapy'', 60),
     (''Chronic Disease Management'', 45),
     (''Home Visit - General Checkup'', 30),
     (''Cardiac Care'', 45),
     (''default'', 45)]"

definition TRAVEL_TIME :: "(string \<times> (string \<times> nat) list) list" where
  "TRAVEL_TIME =
    [(''Keskusta (City Center)'',
        [(''Keskusta (City Center)'', 0), (''Raksila'', 15), (''Tuira'', 20), (''Meri-Oulu'', 25),
         (''Pateniemi'', 30), (''Pohjois-Oulu'', 25), (''Kontinkangas'', 20), (''Kaakkuri'', 15),
         (''Myllyoja'', 10)]),
     (''Raksila'',
        [(''Keskusta (City Center)'', 15), (''Raksila'', 0), (''Tuira'', 10), (''Meri-Oulu'', 20),
         (''Pateniemi'', 25), (''Pohjois-Oulu'', 20), (''Kontinkangas'', 15), (''Kaakkuri'', 20),
         (''Myllyoja'', 10)]),
     (''Tuira'',
        [(''Keskusta (City Center)'', 20), (''Raksila'', 10), (''Tuira'', 0), (''Meri-Oulu'', 15),
         (''Pateniemi'', 20), (''Pohjois-Oulu'', 15), (''Kontinkangas'', 20), (''Kaakkuri'', 25),
         (''Myllyoja'', 20)])]"

text \<open>
  The names every object literal inherits from \<open>Object.prototype\<close>: looking one of them up
  in a table yields a function or an object, which is truthy and not a number.
\<close>

definition OBJECT_PROTOTYPE_NAMES :: "string list" where
  "OBJECT_PROTOTYPE_NAMES =
    [''constructor'', ''toString'', ''toLocaleString'', ''valueOf'', ''hasOwnProperty'',
     ''isPrototypeOf'', ''propertyIsEnumerable'', ''__proto__'', ''__defineGetter__'',
     ''__defineSetter__'', ''__lookupGetter__'', ''__lookupSetter__'']"

subsection \<open>Duration Resolver\<close>

text \<open>
  \<open>CARE_DURATION[careNeeded] || CARE_DURATION['default']\<close>, then
  \<open>getCareDuration(careNeeded, estimatedCareDuration = null)\<close>. The result is \<open>None\<close> when
  the table lookup returns an inherited member instead of a number. A \<open>null\<close> care type is
  the key \<open>null\<close>, which the table does not have. The override is a whole number of
  minutes.
\<close>

definition care_duration_lookup :: "string option \<Rightarrow> nat option" where
  "care_duration_lookup careNeeded =
     (case careNeeded of
        None \<Rightarrow> map_of CARE_DURATION ''default''
      | Some k \<Rightarrow>
          (case map_of CARE_DURATION k of
             Some d \<Rightarrow> if d = 0 then map_of CARE_DURATION ''default'' else Some d
           | None \<Rightarrow> if k \<in> set OBJECT_PROTOTYPE_NAMES then None
                     else map_of CARE_DURATION ''default''))"

definition getCareDuration :: "string option \<Rightarrow> int option \<Rightarrow> nat option" where
  "getCareDuration careNeeded estimatedCareDuration =
     (case estimatedCareDuration of
        None \<Rightarrow> care_duration_lookup careNeeded
      | Some e \<Rightarrow> if e \<noteq> 0 \<and> e > 0 then Some (nat e) else care_duration_lookup careNeeded)"

subsection \<open>Skill Matcher\<close>

record specialization_row =
  specialization :: string

text \<open>
  The inner test of \<open>checkSkillMatch\<close>: some valid specialization and some professional
  specialization contain one another.
\<close>

definition hasValidSpec :: "string list \<Rightarrow> string list \<Rightarrow> bool" where
  "hasValidSpec validSpecs profSpecs =
     list_ex (\<lambda>validSpec.
        list_ex (\<lambda>profSpec.
           includes_str profSpec (toLowerCase validSpec)
           \<or> includes_str (toLowerCase validSpec) profSpec) profSpecs) validSpecs"

text \<open>The \<open>for ... of Object.entries(CARE_SPECIALTY_MAP)\<close> loop, leaving at the first match.\<close>

fun entries_loop :: "string \<Rightarrow> string list \<Rightarrow> (string \<times> string list) list \<Rightarrow> bool" where
  "entries_loop careNeededLower profSpecs [] = False"
| "entries_loop careNeededLower profSpecs ((careType, validSpecs) # rest) =
     (if includes_str careNeededLower careType \<and> hasValidSpec validSpecs profSpecs then True
      else entries_loop careNeededLower profSpecs rest)"

definition checkSkillMatch :: "string option \<Rightarrow> specialization_row list option \<Rightarrow> bool" where
  "checkSkillMatch patientCareNeeded professionalSpecializations =
     (case patientCareNeeded of
        None \<Rightarrow> False
      | Some care \<Rightarrow>
          (case professionalSpecializations of
             None \<Rightarrow> False
           | Some specs \<Rightarrow>
               if care = [] \<or> length specs = 0 then False
               else
                 let careNeededLower = toLowerCase care;
                     profSpecs = map (\<lambda>s. toLowerCase (specialization s)) specs
                 in if list_ex (\<lambda>spec. spec = careNeededLower) profSpecs then True
                    else entries_loop careNeededLower profSpecs CARE_SPECIALTY_MAP))"

text \<open>
  The Skill Matcher as the specification words it, for comparison with the code: false on
  a missing or empty input; true on an equal specialization; otherwise true exactly when a
  table key occurs in the care need and a specialization of the professional contains, or is
  contained in, one of that key's valid specializations. All comparisons are made on the
  lower-cased texts.
\<close>

definition matches_spec :: "string option \<Rightarrow> specialization_row list option \<Rightarrow> bool" where
  "matches_spec careNeeded specializations =
     (if careNeeded = None \<or> careNeeded = Some [] \<or> specializations = None
         \<or> specializations = Some [] then False
      else if \<exists>s \<in> set (the specializations).
                 toLowerCase (specialization s) = toLowerCase (the careNeeded) then True
      else \<exists>(key, valid) \<in> set CARE_SPECIALTY_MAP.
              sublist (toLowerCase key) (toLowerCase (the careNeeded))
              \<and> (\<exists>s \<in> set (the specializations). \<exists>v \<in> set valid.
                    sublist (toLowerCase v) (toLowerCase (specialization s))
                    \<or> sublist (toLowerCase (specialization s)) (toLowerCase v)))"

subsection \<open>Geo Calculator\<close>

definition AVERAGE_SPEED_KMH :: real where
  "AVERAGE_SPEED_KMH = 30"

definition MIN_BUFFER_MINUTES :: real where
  "MIN_BUFFER_MINUTES = 5"

record location =
  lat :: "real option"
  lng :: "real option"
  area :: "string option"

definition OULU_CENTER :: location where
  "OULU_CENTER = \<lparr>lat = Some 65.0121, lng = Some 25.4651, area = None\<rparr>"

text \<open>
  The formulas of \<open>calculateDistance\<close> and \<open>calculateTravelTime\<close>, read over the real
  numbers. The source evaluates them in doubles, with the \<open>Math\<close> functions of the engine:
  there the haversine term of two nearly antipodal points can round above 1, which makes the
  result NaN, and a travel time next to a whole minute can differ by one. The definitions
  give the two functions their place in \<open>getTravelTime\<close>, \<open>getTravelTimeBetweenLocations\<close>
  and the route ordering; nothing is proved about their values.
\<close>

definition toRadians :: "real \<Rightarrow> real" where
  "toRadians degrees = degrees * (pi / 180)"

text \<open>\<open>Math.atan2(y, x)\<close> on real numbers.\<close>

definition atan2 :: "real \<Rightarrow> real \<Rightarrow> real" where
  "atan2 y x =
     (if 0 < x then arctan (y / x)
      else if x < 0 then (if 0 \<le> y then arctan (y / x) + pi else arctan (y / x) - pi)
      else if 0 < y then pi / 2
      else if y < 0 then - (pi / 2)
      else 0)"

definition calculateDistance :: "real \<Rightarrow> real \<Rightarrow> real \<Rightarrow> real \<Rightarrow> real" where
  "calculateDistance lat1 lng1 lat2 lng2 =
     (let R = 6371;
          dLat = toRadians (lat2 - lat1);
          dLng = toRadians (lng2 - lng1);
          a = sin (dLat / 2) * sin (dLat / 2)
              + cos (toRadians lat1) * cos (toRadians lat2) * sin (dLng / 2) * sin (dLng / 2);
          c = 2 * atan2 (sqrt a) (sqrt (1 - a))
      in R * c)"

definition calculateTravelTime :: "real \<Rightarrow> real \<Rightarrow> real \<Rightarrow> real \<Rightarrow> int" where
  "calculateTravelTime lat1 lng1 lat2 lng2 =
     (let distanceKm = calculateDistance lat1 lng1 lat2 lng2;
          travelMinutes = (distanceKm * 1.3 / AVERAGE_SPEED_KMH) * 60
      in \<lceil>travelMinutes + MIN_BUFFER_MINUTES\<rceil>)"

definition ZONE_TRAVEL_TIME :: "(string \<times> (string \<times> nat) list) list" where
  "ZONE_TRAVEL_TIME =
    [(''Keskusta (City Center)'',
        [(''Keskusta (City Center)'', 5), (''Raksila'', 10), (''Tuira'', 12), (''Meri-Oulu'', 15),
         (''Pateniemi'', 20), (''Pohjois-Oulu'', 15), (''Kontinkangas'', 12), (''Kaakkuri'', 10),
         (''Myllyoja'', 8)]),
     (''Raksila'',
        [(''Keskusta (City Center)'', 10), (''Raksila'', 5), (''Tuira'', 8), (''Meri-Oulu'', 12),
         (''Pateniemi'', 18), (''Pohjois-Oulu'', 12), (''Kontinkangas'', 10), (''Kaakkuri'', 12),
         (''Myllyoja'', 8)]),
     (''Tuira'',
        [(''Keskusta (City Center)'', 12), (''Raksila'', 8), (''Tuira'', 5), (''Meri-Oulu'', 10),
         (''Pateniemi'', 15), (''Pohjois-Oulu'', 10), (''Kontinkangas'', 12), (''Kaakkuri'', 15),
         (''Myllyoja'', 12)]),
     (''Meri-Oulu'',
        [(''Keskusta (City Center)'', 15), (''Raksila'', 12), (''Tuira'', 10), (''Meri-Oulu'', 5),
         (''Pateniemi'', 8), (''Pohjois-Oulu'', 12), (''Kontinkangas'', 18), (''Kaakkuri'', 20),
         (''Myllyoja'', 18)]),
     (''Pateniemi'',
        [(''Keskusta (City Center)'', 20), (''Raksila'', 18), (''Tuira'', 15), (''Meri-Oulu'', 8),
         (''Pateniemi'', 5), (''Pohjois-Oulu'', 15), (''Kontinkangas'', 22), (''Kaakkuri'', 25),
         (''Myllyoja'', 22)]),
     (''Pohjois-Oulu'',
        [(''Keskusta (City Center)'', 15), (''Raksila'', 12), (''Tuira'', 10), (''Meri-Oulu'', 12),
         (''Pateniemi'', 15), (''Pohjois-Oulu'', 5), (''Kontinkangas'', 10), (''Kaakkuri'', 12),
         (''Myllyoja'', 12)]),
     (''Kontinkangas'',
        [(''Keskusta (City Center)'', 12), (''Raksila'', 10), (''Tuira'', 12), (''Meri-Oulu'', 18),
         (''Pateniemi'', 22), (''Pohjois-Oulu'', 10), (''Kontinkangas'', 5), (''Kaakkuri'', 8),
         (''Myllyoja'', 10)]),
     (''Kaakkuri'',
        [(''Keskusta (City Center)'', 10), (''Raksila'', 12), (''Tuira'', 15), (''Meri-Oulu'', 20),
         (''Pateniemi'', 25), (''Pohjois-Oulu'', 12), (''Kontinkangas'', 8), (''Kaakkuri'', 5),
         (''Myllyoja'', 12)]),
     (''Myllyoja'',
        [(''Keskusta (City Center)'', 8), (''Raksila'', 8), (''Tuira'', 12), (''Meri-Oulu'', 18),
         (''Pateniemi'', 22), (''Pohjois-Oulu'', 12), (''Kontinkangas'', 10), (''Kaakkuri'', 12),
         (''Myllyoja'', 5)])]"

text \<open>Truthiness of an optional text and of an optional number (\<open>null\<close>, the empty text and 0 are falsy).\<close>

definition truthy_str :: "string option \<Rightarrow> bool" where
  "truthy_str s = (case s of None \<Rightarrow> False | Some t \<Rightarrow> t \<noteq> [])"

definition truthy_num :: "real option \<Rightarrow> bool" where
  "truthy_num x = (case x of None \<Rightarrow> False | Some v \<Rightarrow> v \<noteq> 0)"

definition getZoneBasedTravelTime :: "string option \<Rightarrow> string option \<Rightarrow> nat" where
  "getZoneBasedTravelTime fromArea toArea =
     (if \<not> truthy_str fromArea \<or> \<not> truthy_str toArea then 15
      else (case map_of ZONE_TRAVEL_TIME (the fromArea) of
              None \<Rightarrow> 15
            | Some fromZone \<Rightarrow>
                (case map_of fromZone (the toArea) of
                   None \<Rightarrow> 15
                 | Some t \<Rightarrow> if t = 0 then 15 else t)))"

definition getTravelTimeBetweenLocations :: "location \<Rightarrow> location \<Rightarrow> int" where
  "getTravelTimeBetweenLocations from to =
     (if truthy_num (lat from) \<and> truthy_num (lng from) \<and> truthy_num (lat to) \<and> truthy_num (lng to)
      then calculateTravelTime (the (lat from)) (the (lng from)) (the (lat to)) (the (lng to))
      else int (getZoneBasedTravelTime (area from) (area to)))"

subsection \<open>The optimizer's own travel time\<close>

text \<open>
  \<open>getTravelTime(from, to, fromCoords = null, toCoords = null)\<close> of the optimizer, with its
  own zone table \<open>TRAVEL_TIME\<close>; \<open>routeMap[to] || 20\<close> replaces a stored 0 by 20.
\<close>

definition getTravelTime ::
  "string option \<Rightarrow> string option \<Rightarrow> location option \<Rightarrow> location option \<Rightarrow> int" where
  "getTravelTime from to fromCoords toCoords =
     (if truthy_num (Option.bind fromCoords lat) \<and> truthy_num (Option.bind fromCoords lng)
         \<and> truthy_num (Option.bind toCoords lat) \<and> truthy_num (Option.bind toCoords lng)
      then calculateTravelTime (the (lat (the fromCoords))) (the (lng (the fromCoords)))
             (the (lat (the toCoords))) (the (lng (the toCoords)))
      else if \<not> truthy_str from \<or> \<not> truthy_str to then 15
      else (case map_of TRAVEL_TIME (the from) of
              None \<Rightarrow> 20
            | Some routeMap \<Rightarrow>
                (case map_of routeMap (the to) of
                   None \<Rightarrow> 20
                 | Some t \<Rightarrow> if t = 0 then 20 else int t)))"

subsection \<open>Patients and route ordering\<close>

record patient =
  patient_id :: nat
  care_needed :: "string option"
  estimated_care_duration :: "int option"
  patient_area :: "string option"
  latitude :: "real option"
  longitude :: "real option"

text \<open>The distance the inner loop of \<open>optimizeRouteByDistance\<close> computes for one candidate.\<close>

definition candidate_distance :: "location \<Rightarrow> patient \<Rightarrow> real" where
  "candidate_distance currentLocation p =
     (if truthy_num (latitude p) \<and> truthy_num (longitude p)
         \<and> truthy_num (lat currentLocation) \<and> truthy_num (lng currentLocation)
      then calculateDistance (the (lat currentLocation)) (the (lng currentLocation))
             (the (latitude p)) (the (longitude p))
      else real (getZoneBasedTravelTime (area currentLocation) (patient_area p)) / 2)"

text \<open>
  The \<open>for\<close> loop over \<open>remaining\<close>: the pair is \<open>(nearestIndex, nearestDistance)\<close>, where
  \<open>None\<close> is the initial \<open>Infinity\<close>; \<open>i\<close> is the index of the head of the list still to scan.
\<close>

fun nearest_scan :: "location \<Rightarrow> patient list \<Rightarrow> nat \<Rightarrow> nat \<times> real option \<Rightarrow> nat \<times> real option" where
  "nearest_scan currentLocation [] i acc = acc"
| "nearest_scan currentLocation (p # ps) i (nearestIndex, nearestDistance) =
     (let distance = candidate_distance currentLocation p
      in if (case nearestDistance of None \<Rightarrow> True | Some nd \<Rightarrow> distance < nd)
         then nearest_scan currentLocation ps (Suc i) (i, Some distance)
         else nearest_scan currentLocation ps (Suc i) (nearestIndex, nearestDistance))"

text \<open>\<open>remaining.splice(i, 1)\<close>: the element removed (if any) and the list left.\<close>

definition splice1 :: "nat \<Rightarrow> 'a list \<Rightarrow> 'a list \<times> 'a list" where
  "splice1 i xs = (take 1 (drop i xs), take i xs @ drop (Suc i) xs)"

text \<open>
  The \<open>while (remaining.length > 0)\<close> loop. \<open>splice(...)[0]\<close> of an empty removal would be
  \<open>undefined\<close>, and reading \<open>nearest.latitude\<close> would then throw: that branch is \<open>None\<close>.
\<close>

function route_loop :: "patient list \<Rightarrow> patient list \<Rightarrow> location \<Rightarrow> patient list option" where
  "route_loop optimized remaining currentLocation =
     (if length remaining > 0 then
        (let nearestIndex = fst (nearest_scan currentLocation remaining 0 (0, None))
         in (case splice1 nearestIndex remaining of
               ([], rest) \<Rightarrow> None
             | (nearest # _, rest) \<Rightarrow>
                 route_loop (optimized @ [nearest]) rest
                   \<lparr>lat = latitude nearest, lng = longitude nearest, area = patient_area nearest\<rparr>))
      else Some optimized)"
  by pat_completeness auto
termination
proof (relation "measure (\<lambda>(optimized, remaining, currentLocation). length remaining)", goal_cases)
  case 1
  show ?case by simp
next
  case (2 optimized remaining currentLocation nearestIndex removed rest nearest others)
  have "nearestIndex < length remaining"
  proof (rule ccontr)
    assume "\<not> nearestIndex < length remaining"
    then have "drop nearestIndex remaining = []" by simp
    with 2 show False by (simp add: splice1_def)
  qed
  with 2 show ?case by (auto simp: splice1_def)
qed

definition optimizeRouteByDistance :: "patient list option \<Rightarrow> location option \<Rightarrow> patient list option" where
  "optimizeRouteByDistance patients startLocation =
     (case patients of
        None \<Rightarrow> Some []
      | Some ps \<Rightarrow>
          if length ps = 0 then Some []
          else if length ps = 1 then Some ps
          else route_loop [] ps (case startLocation of None \<Rightarrow> OULU_CENTER | Some l \<Rightarrow> l))"


subsection \<open>The store\<close>

record working_hours_row =
  wh_professional_id :: nat
  weekday :: nat
  start_time :: string
  end_time :: string

record assignment =
  assignment_id :: nat
  a_patient_id :: nat
  a_professional_id :: nat
  assigned_by_id :: "nat option"
  scheduled_visit_date :: "string option"
  scheduled_visit_time :: "string option"
  status :: string
  assignment_reason :: "string option"

record schedule_entry =
  s_patient_id :: nat
  s_professional_id :: nat
  s_date :: string
  s_start_time :: string
  s_end_time :: string
  s_status :: string

text \<open>
  The tables, and \<open>outcomes\<close>: whether the coming calls to the store fail (\<open>True\<close>), in the
  order the calls are made; past the end of the list every call succeeds. A call that fails
  changes no table. Identifiers are numbers and visit dates are texts; the store compares
  both by equality.
\<close>

record db =
  patients :: "patient list"
  working_hours :: "working_hours_row list"
  patient_assignments :: "assignment list"
  schedules :: "schedule_entry list"
  outcomes :: "bool list"

definition store_call :: "db \<Rightarrow> bool \<times> db" where
  "store_call s =
     (case outcomes s of
        [] \<Rightarrow> (False, s)
      | failed # later \<Rightarrow> (failed, s\<lparr>outcomes := later\<rparr>))"

text \<open>The message of the error object a failed call returns; the code only passes it on.\<close>

definition STORE_ERROR_MESSAGE :: string where
  "STORE_ERROR_MESSAGE = ''store error''"

text \<open>\<open>.single()\<close>: the row when the filter selects exactly one, an error otherwise.\<close>

definition single :: "'a list \<Rightarrow> 'a option" where
  "single rows = (case rows of [r] \<Rightarrow> Some r | _ \<Rightarrow> None)"

text \<open>The identifier the store gives to an inserted assignment: one not in the table.\<close>

definition fresh_assignment_id :: "assignment list \<Rightarrow> nat" where
  "fresh_assignment_id rows = Suc (foldr max (map assignment_id rows) 0)"

subsection \<open>Clock times\<close>

text \<open>
  \<open>const [h, m] = t.split(':').map(Number)\<close>: the first two pieces as numbers; a missing
  second piece is \<open>undefined\<close>. \<open>None\<close> stands for NaN and for \<open>undefined\<close>, which both turn
  \<open>h * 60 + m\<close> into NaN.
\<close>

definition split_hour_min :: "string \<Rightarrow> nat option \<times> nat option" where
  "split_hour_min t =
     (case map js_Number (split_colon t) of
        [] \<Rightarrow> (None, None)
      | [h] \<Rightarrow> (h, None)
      | h # m # _ \<Rightarrow> (h, m))"

definition minutes_of_day :: "string \<Rightarrow> nat option" where
  "minutes_of_day t =
     (case split_hour_min t of
        (Some h, Some m) \<Rightarrow> Some (h * 60 + m)
      | _ \<Rightarrow> None)"

text \<open>
  \<open>`${hours.toString().padStart(2, '0')}:${mins.toString().padStart(2, '0')}`\<close> with
  \<open>hours = Math.floor(t / 60)\<close> and \<open>mins = t % 60\<close>; on NaN both parts are the text NaN.
\<close>

definition format_time :: "nat option \<Rightarrow> string" where
  "format_time t =
     (let hours = map_option (\<lambda>n. n div 60) t;
          mins = map_option (\<lambda>n. n mod 60) t
      in padStart2 (toString_num hours) @ '':'' @ padStart2 (toString_num mins))"

text \<open>
  \<open>addMinutes(timeString, minutes)\<close>; \<open>minutes\<close> is \<open>None\<close> when the Duration Resolver returned
  an inherited member: the sum is then a text, and its quotient and remainder are NaN.
\<close>

definition addMinutes :: "string \<Rightarrow> nat option \<Rightarrow> string" where
  "addMinutes timeString minutes =
     (let totalMins = (case (minutes_of_day timeString, minutes) of
                         (Some hm, Some d) \<Rightarrow> Some (hm + d)
                       | _ \<Rightarrow> None)
      in format_time totalMins)"

text \<open>
  A clock time as the specification writes it: two decimal digits for the hour, a colon,
  two decimal digits for the minute.
\<close>

definition two_digits :: "nat \<Rightarrow> string" where
  "two_digits n = [digit_char (n div 10), digit_char (n mod 10)]"

definition HHMM :: "nat \<Rightarrow> string" where
  "HHMM t = two_digits (t div 60) @ '':'' @ two_digits (t mod 60)"

subsection \<open>Slot Calculator\<close>

record slot_result =
  available :: bool
  reason :: "string option"
  suggestedTime :: "string option"
  slots :: "string list option"
  patientCountOnDay :: "nat option"
  maxCapacity :: "nat option"

text \<open>The in-batch assignments a caller may pass to the Slot Calculator.\<close>

record memory_assignment =
  m_professional_id :: nat
  m_scheduled_visit_date :: string
  m_scheduled_visit_time :: "string option"

text \<open>The rows the working-hours query selects: this professional, this weekday.\<close>

definition working_hours_query :: "db \<Rightarrow> nat \<Rightarrow> nat \<Rightarrow> working_hours_row list" where
  "working_hours_query s professionalId dayOfWeek =
     filter (\<lambda>w. wh_professional_id w = professionalId \<and> weekday w = dayOfWeek)
       (working_hours s)"

text \<open>The rows the capacity query selects: this professional, this date, status active.\<close>

definition assignedPatients_query :: "db \<Rightarrow> nat \<Rightarrow> string \<Rightarrow> assignment list" where
  "assignedPatients_query s professionalId visitDate =
     filter (\<lambda>a. a_professional_id a = professionalId
                \<and> scheduled_visit_date a = Some visitDate
                \<and> status a = ''active'') (patient_assignments s)"

text \<open>
  \<open>slotTime + 60 > dayEnd\<close>, which is false as soon as one side is NaN.
\<close>

definition past_day_end :: "nat option \<Rightarrow> nat option \<Rightarrow> bool" where
  "past_day_end slotTime dayEnd =
     (case (slotTime, dayEnd) of
        (Some t, Some e) \<Rightarrow> t + 60 > e
      | _ \<Rightarrow> False)"

text \<open>
  \<open>calculateAvailableTimeSlots(professionalId, visitDate, existingAssignments = [])\<close>.
  \<open>getDay\<close> is \<open>new Date(visitDate).getDay()\<close>, the weekday (0 is Sunday) of the date text
  in the server's time zone. The result comes with the store as the calls left it.
\<close>

definition calculateAvailableTimeSlots ::
  "(string \<Rightarrow> nat) \<Rightarrow> nat \<Rightarrow> string \<Rightarrow> memory_assignment list \<Rightarrow> db \<Rightarrow> slot_result \<times> db" where
  "calculateAvailableTimeSlots getDay professionalId visitDate existingAssignments s0 =
     (let dayOfWeek = (if getDay visitDate = 0 then 7 else getDay visitDate);
          (whError, s1) = store_call s0;
          workingHours = single (working_hours_query s1 professionalId dayOfWeek)
      in case (if whError then None else workingHours) of
           None \<Rightarrow>
             (\<lparr>available = False, reason = Some ''No working hours for this day'',
               suggestedTime = None, slots = None,
               patientCountOnDay = Some 0, maxCapacity = Some 4\<rparr>, s1)
         | Some wh \<Rightarrow>
             (let (assignError, s2) = store_call s1;
                  assignedPatients = assignedPatients_query s2 professionalId visitDate
              in if assignError then
                   (\<lparr>available = False, reason = Some ''Error checking capacity'',
                     suggestedTime = None, slots = None,
                     patientCountOnDay = Some 0, maxCapacity = Some 4\<rparr>, s2)
                 else
                   (let memoryAssignmentsForDay =
                          filter (\<lambda>a. m_professional_id a = professionalId
                                     \<and> m_scheduled_visit_date a = visitDate) existingAssignments;
                        dbCount = length assignedPatients;
                        memoryCount = length memoryAssignmentsForDay;
                        currentPatientCountOnDay = dbCount + memoryCount;
                        MAX_PATIENTS_PER_DAY = 4
                    in if currentPatientCountOnDay \<ge> MAX_PATIENTS_PER_DAY then
                         (\<lparr>available = False,
                           reason = Some (''Professional has '' @ toString_nat currentPatientCountOnDay
                                          @ ''/'' @ toString_nat MAX_PATIENTS_PER_DAY @ '' patients''),
                           suggestedTime = None, slots = None,
                           patientCountOnDay = Some currentPatientCountOnDay,
                           maxCapacity = Some MAX_PATIENTS_PER_DAY\<rparr>, s2)
                       else
                         (let dayStart = minutes_of_day (start_time wh);
                              dayEnd = minutes_of_day (end_time wh);
                              slotTime = map_option (\<lambda>d. d + currentPatientCountOnDay * 120) dayStart
                          in if past_day_end slotTime dayEnd then
                               (\<lparr>available = False, reason = Some ''No time slots available'',
                                 suggestedTime = None, slots = None,
                                 patientCountOnDay = Some currentPatientCountOnDay,
                                 maxCapacity = None\<rparr>, s2)
                             else
                               (\<lparr>available = True, reason = None,
                                 suggestedTime = Some (format_time slotTime),
                                 slots = Some [format_time slotTime],
                                 patientCountOnDay = Some currentPatientCountOnDay,
                                 maxCapacity = Some MAX_PATIENTS_PER_DAY\<rparr>, s2)))))"

subsection \<open>Assignment Orchestrator\<close>

record assign_result =
  success :: bool
  created :: "assignment option"
  r_suggestedTime :: "string option"
  error :: "string option"

definition failure :: "string option \<Rightarrow> assign_result" where
  "failure msg = \<lparr>success = False, created = None, r_suggestedTime = None, error = msg\<rparr>"

text \<open>
  \<open>smartAssignPatient(patientId, professionalId, date, assignedById = null)\<close>. The store
  calls are, in order: the patient read, the two reads of the Slot Calculator, the
  assignment insert, the schedule insert. The result of the schedule insert is not looked at.
  Were the slot result without a suggested time, \<open>addMinutes\<close> would throw on it after the
  assignment insert, and the \<open>catch\<close> would return a failure.
\<close>

definition smartAssignPatient ::
  "(string \<Rightarrow> nat) \<Rightarrow> nat \<Rightarrow> nat \<Rightarrow> string \<Rightarrow> nat option \<Rightarrow> db \<Rightarrow> assign_result \<times> db" where
  "smartAssignPatient getDay patientId professionalId date assignedById s0 =
     (let (patientError, s1) = store_call s0;
          patient = single (filter (\<lambda>p. patient_id p = patientId) (patients s1))
      in case (if patientError then None else patient) of
           None \<Rightarrow> (failure (Some STORE_ERROR_MESSAGE), s1)
         | Some patient \<Rightarrow>
             (let (slots, s2) = calculateAvailableTimeSlots getDay professionalId date [] s1
              in if \<not> available slots then (failure (reason slots), s2)
                 else
                   (let (insertError, s3) = store_call s2;
                        data = \<lparr>assignment_id = fresh_assignment_id (patient_assignments s3),
                                a_patient_id = patientId,
                                a_professional_id = professionalId,
                                assigned_by_id = assignedById,
                                scheduled_visit_date = Some date,
                                scheduled_visit_time = suggestedTime slots,
                                status = ''active'',
                                assignment_reason = None\<rparr>
                    in if insertError then (failure (Some STORE_ERROR_MESSAGE), s3)
                       else
                         (let s4 = s3\<lparr>patient_assignments := patient_assignments s3 @ [data]\<rparr>
                          in case suggestedTime slots of
                               None \<Rightarrow> (failure (Some ''TypeError''), s4)
                             | Some startTime \<Rightarrow>
                                 (let entry = \<lparr>s_patient_id = patientId,
                                               s_professional_id = professionalId,
                                               s_date = date,
                                               s_start_time = startTime,
                                               s_end_time = addMinutes startTime
                                                 (getCareDuration (care_needed patient)
                                                    (estimated_care_duration patient)),
                                               s_status = ''scheduled''\<rparr>;
                                      (scheduleError, s5) = store_call s4;
                                      s6 = (if scheduleError then s5
                                            else s5\<lparr>schedules := schedules s5 @ [entry]\<rparr>)
                                  in (\<lparr>success = True, created = Some data,
                                       r_suggestedTime = Some startTime, error = None\<rparr>, s6))))))"

record bulk_item =
  item_patient_id :: nat
  item_professional_id :: nat
  item_date :: string

record bulk_summary =
  total :: nat
  successful :: nat
  failed :: nat
  results :: "(bulk_item \<times> assign_result) list"

text \<open>
  The \<open>for ... of assignments\<close> loop of \<open>bulkAssignPatients\<close>, with its two local lists;
  a result entry \<open>{...assignment, ...result}\<close> is the pair of the item and its result.
\<close>

fun bulk_loop ::
  "(string \<Rightarrow> nat) \<Rightarrow> nat option \<Rightarrow> bulk_item list
   \<Rightarrow> (bulk_item \<times> assign_result) list \<Rightarrow> memory_assignment list \<Rightarrow> db
   \<Rightarrow> (bulk_item \<times> assign_result) list \<times> memory_assignment list \<times> db" where
  "bulk_loop getDay assignedById [] results_so_far existingAssignments s =
     (results_so_far, existingAssignments, s)"
| "bulk_loop getDay assignedById (assignment # rest) results_so_far existingAssignments s =
     (let (result, s') = smartAssignPatient getDay (item_patient_id assignment)
                           (item_professional_id assignment) (item_date assignment) assignedById s;
          results_next = results_so_far @ [(assignment, result)];
          existingAssignments_next =
            (if success result then
               existingAssignments @
                 [\<lparr>m_professional_id = item_professional_id assignment,
                   m_scheduled_visit_date = item_date assignment,
                   m_scheduled_visit_time = r_suggestedTime result\<rparr>]
             else existingAssignments)
      in bulk_loop getDay assignedById rest results_next existingAssignments_next s')"

definition bulkAssignPatients ::
  "(string \<Rightarrow> nat) \<Rightarrow> bulk_item list \<Rightarrow> nat option \<Rightarrow> db \<Rightarrow> bulk_summary \<times> db" where
  "bulkAssignPatients getDay assignments assignedById s =
     (let (all_results, existingAssignments, s') =
            bulk_loop getDay assignedById assignments [] [] s
      in (\<lparr>total = length assignments,
           successful = length (filter (\<lambda>r. success (snd r)) all_results),
           failed = length (filter (\<lambda>r. \<not> success (snd r)) all_results),
           results = all_results\<rparr>, s'))"

text \<open>
  The handler of \<open>POST /:id/reassign\<close>: the status update (its result is not looked at),
  the read of the old assignment, the insert of the new one, which has no visit date and no
  visit time. \<open>Inl\<close> is the error of the 500 response.
\<close>

definition reassign :: "nat \<Rightarrow> nat \<Rightarrow> string option \<Rightarrow> nat \<Rightarrow> db \<Rightarrow> (string + assignment) \<times> db" where
  "reassign oldAssignmentId new_professional_id reason_text user_id s0 =
     (let (updateError, s1) = store_call s0;
          s2 = (if updateError then s1
                else s1\<lparr>patient_assignments :=
                          map (\<lambda>a. if assignment_id a = oldAssignmentId
                                    then a\<lparr>status := ''reassigned''\<rparr> else a)
                              (patient_assignments s1)\<rparr>);
          (fetchError, s3) = store_call s2;
          oldAssignment = single (filter (\<lambda>a. assignment_id a = oldAssignmentId)
                                    (patient_assignments s3))
      in case (if fetchError then None else oldAssignment) of
           None \<Rightarrow> (Inl STORE_ERROR_MESSAGE, s3)
         | Some old \<Rightarrow>
             (let (insertError, s4) = store_call s3;
                  data = \<lparr>assignment_id = fresh_assignment_id (patient_assignments s4),
                          a_patient_id = a_patient_id old,
                          a_professional_id = new_professional_id,
                          assigned_by_id = Some user_id,
                          scheduled_visit_date = None,
                          scheduled_visit_time = None,
                          status = ''active'',
                          assignment_reason =
                            Some (if truthy_str reason_text then the reason_text
                                  else ''Reassignment'')\<rparr>
              in if insertError then (Inl STORE_ERROR_MESSAGE, s4)
                 else (Inr data, s4\<lparr>patient_assignments := patient_assignments s4 @ [data]\<rparr>)))"

subsection \<open>Sequences of operations\<close>

datatype operation =
  AssignOne nat nat string "nat option"
| AssignBulk "bulk_item list" "nat option"
| Reassign nat nat "string option" nat

fun apply_operation :: "(string \<Rightarrow> nat) \<Rightarrow> operation \<Rightarrow> db \<Rightarrow> db" where
  "apply_operation getDay (AssignOne patientId professionalId date assignedById) s =
     snd (smartAssignPatient getDay patientId professionalId date assignedById s)"
| "apply_operation getDay (AssignBulk assignments assignedById) s =
     snd (bulkAssignPatients getDay assignments assignedById s)"
| "apply_operation getDay (Reassign oldAssignmentId new_professional_id reason_text user_id) s =
     snd (reassign oldAssignmentId new_professional_id reason_text user_id s)"

text \<open>
  Operations executed one after another, each one complete before the next begins.
\<close>

fun run :: "(string \<Rightarrow> nat) \<Rightarrow> operation list \<Rightarrow> db \<Rightarrow> db" where
  "run getDay [] s = s"
| "run getDay (op # ops) s = run getDay ops (apply_operation getDay op s)"

text \<open>The number of active assignments of a professional on a date.\<close>

definition active_count :: "db \<Rightarrow> nat \<Rightarrow> string \<Rightarrow> nat" where
  "active_count s professionalId visitDate =
     length (assignedPatients_query s professionalId visitDate)"


subsection \<open>Overlapping requests\<close>

text \<open>
  Every store call of an operation is an \<open>await\<close>: the request is suspended there, and
  the server may run another request meanwhile. \<open>smartAssignPatient\<close> is cut here at the
  \<open>await\<close> of the assignment insert. The first part is the patient read and the Slot
  Calculator; \<open>Inl\<close> is the result of a call that ends there, \<open>Inr\<close> holds the patient and
  the slot result with which the call goes on. The second part is the two inserts.
\<close>

definition smartAssignPatient_reads ::
  "(string \<Rightarrow> nat) \<Rightarrow> nat \<Rightarrow> nat \<Rightarrow> string \<Rightarrow> db
   \<Rightarrow> (assign_result + patient \<times> slot_result) \<times> db" where
  "smartAssignPatient_reads getDay patientId professionalId date s0 =
     (let (patientError, s1) = store_call s0;
          patient = single (filter (\<lambda>p. patient_id p = patientId) (patients s1))
      in case (if patientError then None else patient) of
           None \<Rightarrow> (Inl (failure (Some STORE_ERROR_MESSAGE)), s1)
         | Some patient \<Rightarrow>
             (let (slots, s2) = calculateAvailableTimeSlots getDay professionalId date [] s1
              in if \<not> available slots then (Inl (failure (reason slots)), s2)
                 else (Inr (patient, slots), s2)))"

definition smartAssignPatient_writes ::
  "nat \<Rightarrow> nat \<Rightarrow> string \<Rightarrow> nat option \<Rightarrow> patient \<Rightarrow> slot_result \<Rightarrow> db
   \<Rightarrow> assign_result \<times> db" where
  "smartAssignPatient_writes patientId professionalId date assignedById patient slotResult s2 =
     (let (insertError, s3) = store_call s2;
          data = \<lparr>assignment_id = fresh_assignment_id (patient_assignments s3),
                  a_patient_id = patientId,
                  a_professional_id = professionalId,
                  assigned_by_id = assignedById,
                  scheduled_visit_date = Some date,
                  scheduled_visit_time = suggestedTime slotResult,
                  status = ''active'',
                  assignment_reason = None\<rparr>
      in if insertError then (failure (Some STORE_ERROR_MESSAGE), s3)
         else
           (let s4 = s3\<lparr>patient_assignments := patient_assignments s3 @ [data]\<rparr>
            in case suggestedTime slotResult of
                 None \<Rightarrow> (failure (Some ''TypeError''), s4)
               | Some startTime \<Rightarrow>
                   (let entry = \<lparr>s_patient_id = patientId,
                                 s_professional_id = professionalId,
                                 s_date = date,
                                 s_start_time = startTime,
                                 s_end_time = addMinutes startTime
                                   (getCareDuration (care_needed patient)
                                      (estimated_care_duration patient)),
                                 s_status = ''scheduled''\<rparr>;
                        (scheduleError, s5) = store_call s4;
                        s6 = (if scheduleError then s5
                              else s5\<lparr>schedules := schedules s5 @ [entry]\<rparr>)
                    in (\<lparr>success = True, created = Some data,
                         r_suggestedTime = Some startTime, error = None\<rparr>, s6))))"

text \<open>The rest of a call after its first part.\<close>

definition smartAssignPatient_rest ::
  "nat \<Rightarrow> nat \<Rightarrow> string \<Rightarrow> nat option \<Rightarrow> (assign_result + patient \<times> slot_result) \<Rightarrow> db
   \<Rightarrow> assign_result \<times> db" where
  "smartAssignPatient_rest patientId professionalId date assignedById pending s =
     (case pending of
        Inl result \<Rightarrow> (result, s)
      | Inr (patient, slotResult) \<Rightarrow>
          smartAssignPatient_writes patientId professionalId date assignedById patient slotResult s)"

text \<open>
  Two calls A and B of \<open>smartAssignPatient\<close> that overlap: the store serves the reads of A,
  then the reads of B, then the inserts of A, then the inserts of B.
\<close>

definition overlapping_smartAssignPatient ::
  "(string \<Rightarrow> nat) \<Rightarrow> nat \<Rightarrow> nat \<Rightarrow> string \<Rightarrow> nat option
   \<Rightarrow> nat \<Rightarrow> nat \<Rightarrow> string \<Rightarrow> nat option \<Rightarrow> db
   \<Rightarrow> (assign_result \<times> assign_result) \<times> db" where
  "overlapping_smartAssignPatient getDay patientIdA professionalIdA dateA assignedByIdA
       patientIdB professionalIdB dateB assignedByIdB s0 =
     (let (pendingA, s1) = smartAssignPatient_reads getDay patientIdA professionalIdA dateA s0;
          (pendingB, s2) = smartAssignPatient_reads getDay patientIdB professionalIdB dateB s1;
          (resultA, s3) = smartAssignPatient_rest patientIdA professionalIdA dateA assignedByIdA
                            pendingA s2;
          (resultB, s4) = smartAssignPatient_rest patientIdB professionalIdB dateB assignedByIdB
                            pendingB s3
      in ((resultA, resultB), s4))"


subsection \<open>Example data\<close>

text \<open>
  A store with five patients (the second with a duration override of 120 minutes) and three
  professionals working on Mondays: 7 from 08:00 to 16:00, 8 from 08:00 to 09:30, 9 from
  15:30 to 16:00. The date 2025-03-03 is a Monday, 2025-03-02 a Sunday.
\<close>

definition example_getDay :: "string \<Rightarrow> nat" where
  "example_getDay d = (if d = ''2025-03-02'' then 0 else 1)"

definition example_patient :: "nat \<Rightarrow> int option \<Rightarrow> patient" where
  "example_patient i override =
     \<lparr>patient_id = i, care_needed = Some ''Wound Dressing'', estimated_care_duration = override,
      patient_area = Some ''Tuira'', latitude = None, longitude = None\<rparr>"

definition example_store :: db where
  "example_store =
     \<lparr>patients = [example_patient 1 None, example_patient 2 (Some 120), example_patient 3 None,
                  example_patient 4 None, example_patient 5 None],
      working_hours =
        [\<lparr>wh_professional_id = 7, weekday = 1, start_time = ''08:00:00'', end_time = ''16:00:00''\<rparr>,
         \<lparr>wh_professional_id = 8, weekday = 1, start_time = ''08:00'', end_time = ''09:30''\<rparr>,
         \<lparr>wh_professional_id = 9, weekday = 1, start_time = ''15:30'', end_time = ''16:00''\<rparr>],
      patient_assignments = [], schedules = [], outcomes = []\<rparr>"

definition example_item :: "nat \<Rightarrow> nat \<Rightarrow> bulk_item" where
  "example_item patientId professionalId =
     \<lparr>item_patient_id = patientId, item_professional_id = professionalId,
      item_date = ''2025-03-03''\<rparr>"

text \<open>
  The example store after a batch has assigned patients 1, 2 and 3 to professional 7 on
  2025-03-03: three active assignments, at 08:00, 10:00 and 12:00.
\<close>

definition example_store_three :: db where
  "example_store_three =
     snd (bulkAssignPatients example_getDay
            [example_item 1 7, example_item 2 7, example_item 3 7] None example_store)"

section \<open>Properties\<close>

subsection \<open>Skill Matcher and zone travel time\<close>

lemma includes_str_sublist: "includes_str s t = sublist t s"
  by (induction s) (auto simp: sublist_Cons_right)

lemma hasValidSpec_iff:
  "hasValidSpec validSpecs profSpecs =
     (\<exists>p \<in> set profSpecs. \<exists>v \<in> set validSpecs.
        sublist (toLowerCase v) p \<or> sublist p (toLowerCase v))"
  unfolding hasValidSpec_def list_ex_iff includes_str_sublist by blast

lemma entries_loop_iff:
  "entries_loop c ps tbl =
     (\<exists>(k, v) \<in> set tbl. sublist k c \<and> hasValidSpec v ps)"
  by (induction c ps tbl rule: entries_loop.induct) (auto simp: includes_str_sublist)

lemma care_keys_lower: "(k, v) \<in> set CARE_SPECIALTY_MAP \<Longrightarrow> toLowerCase k = k"
  by (auto simp: CARE_SPECIALTY_MAP_def toLowerCase_def lower_char_def)

text \<open>
  Claim C8. \<open>checkSkillMatch\<close> is false when the care need or the specialization list is
  missing or empty; true when a specialization equals the care need, letter case aside;
  otherwise true exactly when a table key occurs in the care need and some specialization
  of the professional contains, or is contained in, one of that key's valid
  specializations (letter case aside); and false in every other case. This is
  \<open>matches_spec\<close>, and the code computes it.
\<close>

theorem checkSkillMatch_meets_spec:
  "checkSkillMatch careNeeded specializations = matches_spec careNeeded specializations"
proof (cases careNeeded)
  case None
  then show ?thesis by (simp add: checkSkillMatch_def matches_spec_def)
next
  case (Some care)
  note care = this
  show ?thesis
  proof (cases specializations)
    case None
    with care show ?thesis by (simp add: checkSkillMatch_def matches_spec_def)
  next
    case (Some specs)
    show ?thesis
    proof (cases "care = [] \<or> specs = []")
      case True
      with care Some show ?thesis by (auto simp: checkSkillMatch_def matches_spec_def)
    next
      case False
      have keys: "(\<exists>(k, v) \<in> set CARE_SPECIALTY_MAP. sublist k (toLowerCase care) \<and> P v)
                  = (\<exists>(k, v) \<in> set CARE_SPECIALTY_MAP. sublist (toLowerCase k) (toLowerCase care) \<and> P v)" for P
        by (rule bex_cong [OF refl]) (auto simp: care_keys_lower)
      show ?thesis
      proof (cases "\<exists>s \<in> set specs. toLowerCase (specialization s) = toLowerCase care")
        case True
        then have "list_ex (\<lambda>spec. spec = toLowerCase care)
                     (map (\<lambda>s. toLowerCase (specialization s)) specs)"
          by (force simp: list_ex_iff)
        with True False care Some show ?thesis
          by (simp add: checkSkillMatch_def matches_spec_def Let_def)
      next
        case exact: False
        then have "\<not> list_ex (\<lambda>spec. spec = toLowerCase care)
                       (map (\<lambda>s. toLowerCase (specialization s)) specs)"
          by (auto simp: list_ex_iff)
        with exact False care Some show ?thesis
          by (simp add: checkSkillMatch_def matches_spec_def Let_def
                entries_loop_iff hasValidSpec_iff keys)
      qed
    qed
  qed
qed

theorem checkSkillMatch_meets_spec_witness:
  "matches_spec (Some ''wound dressing'') (Some [\<lparr>specialization = ''Post-operative Care''\<rparr>])
   \<and> matches_spec (Some ''WOUND CARE'') (Some [\<lparr>specialization = ''wound care''\<rparr>])
   \<and> \<not> matches_spec (Some ''wound care'') (Some [\<lparr>specialization = ''Cardiology''\<rparr>])
   \<and> \<not> matches_spec None (Some [\<lparr>specialization = ''Wound Care''\<rparr>])"
proof -
  have "checkSkillMatch (Some ''wound dressing'') (Some [\<lparr>specialization = ''Post-operative Care''\<rparr>])"
    by code_simp
  moreover have "checkSkillMatch (Some ''WOUND CARE'') (Some [\<lparr>specialization = ''wound care''\<rparr>])"
    by code_simp
  moreover have "\<not> checkSkillMatch (Some ''wound care'') (Some [\<lparr>specialization = ''Cardiology''\<rparr>])"
    by code_simp
  moreover have "\<not> checkSkillMatch None (Some [\<lparr>specialization = ''Wound Care''\<rparr>])"
    by code_simp
  ultimately show ?thesis
    by (simp only: checkSkillMatch_meets_spec simp_thms)
qed

text \<open>
  Claim C10. For every zone name of the optimizer's table \<open>TRAVEL_TIME\<close> (a key of the table
  or of one of its rows), \<open>getTravelTime\<close> of the zone to itself, without coordinates, is 20.
  For each key of the table, the table does store a value for the zone to itself, namely 0:
  that 0 is falsy, and \<open>||\<close> replaces it by the default for a missing entry.
\<close>

theorem getTravelTime_same_zone_is_20:
  "Z \<in> fst ` set TRAVEL_TIME \<union> (\<Union>routeMap \<in> snd ` set TRAVEL_TIME. fst ` set routeMap) \<Longrightarrow>
     getTravelTime (Some Z) (Some Z) None None = 20
     \<and> (Z \<in> fst ` set TRAVEL_TIME \<longrightarrow>
          (\<exists>routeMap. map_of TRAVEL_TIME Z = Some routeMap \<and> map_of routeMap Z = Some 0))"
  by (auto simp: TRAVEL_TIME_def getTravelTime_def truthy_num_def truthy_str_def)

theorem getTravelTime_same_zone_is_20_witness:
  "''Tuira'' \<in> fst ` set TRAVEL_TIME
   \<and> (\<exists>routeMap. map_of TRAVEL_TIME ''Tuira'' = Some routeMap \<and> map_of routeMap ''Tuira'' = Some 0)
   \<and> getTravelTime (Some ''Tuira'') (Some ''Tuira'') None None = 20"
proof -
  have key: "''Tuira'' \<in> fst ` set TRAVEL_TIME"
    by (simp add: TRAVEL_TIME_def)
  then have "''Tuira'' \<in> fst ` set TRAVEL_TIME
      \<union> (\<Union>routeMap \<in> snd ` set TRAVEL_TIME. fst ` set routeMap)"
    by simp
  from getTravelTime_same_zone_is_20 [OF this] key show ?thesis
    by simp
qed

subsection \<open>Route ordering\<close>

lemma nearest_scan_index:
  "fst (nearest_scan cur ps i (ni, nd)) = ni
   \<or> (i \<le> fst (nearest_scan cur ps i (ni, nd)) \<and> fst (nearest_scan cur ps i (ni, nd)) < i + length ps)"
proof (induction ps arbitrary: i ni nd)
  case Nil
  show ?case by simp
next
  case (Cons p ps)
  show ?case
  proof (cases "case nd of None \<Rightarrow> True | Some d \<Rightarrow> candidate_distance cur p < d")
    case True
    then show ?thesis
      using Cons.IH [of "Suc i" i "Some (candidate_distance cur p)"] by (auto simp: Let_def)
  next
    case False
    then show ?thesis
      using Cons.IH [of "Suc i" ni nd] by (auto simp: Let_def)
  qed
qed

lemma nearest_scan_in_range:
  "ps \<noteq> [] \<Longrightarrow> fst (nearest_scan cur ps 0 (0, None)) < length ps"
  using nearest_scan_index [of cur ps 0 0 None] by auto

lemma splice1_in_range:
  "i < length xs \<Longrightarrow> splice1 i xs = ([xs ! i], take i xs @ drop (Suc i) xs)"
  by (simp add: splice1_def take_Suc_conv_app_nth Cons_nth_drop_Suc [symmetric])

lemma mset_remove_nth:
  "i < length xs \<Longrightarrow> mset (take i xs @ drop (Suc i) xs) + {#xs ! i#} = mset xs"
proof -
  assume "i < length xs"
  then have "xs = take i xs @ xs ! i # drop (Suc i) xs"
    by (simp add: id_take_nth_drop)
  then have "mset xs = mset (take i xs @ xs ! i # drop (Suc i) xs)"
    by simp
  then show ?thesis by simp
qed

lemma route_loop_permutes:
  "\<exists>out. route_loop optimized remaining cur = Some out \<and> mset out = mset optimized + mset remaining"
proof (induction optimized remaining cur rule: route_loop.induct)
  case (1 optimized remaining cur)
  show ?case
  proof (cases "remaining = []")
    case True
    then show ?thesis by simp
  next
    case False
    define i where "i = fst (nearest_scan cur remaining 0 (0, None))"
    have i: "i < length remaining"
      using False by (simp add: i_def nearest_scan_in_range)
    have sp: "splice1 i remaining = ([remaining ! i], take i remaining @ drop (Suc i) remaining)"
      using i by (rule splice1_in_range)
    let ?n = "remaining ! i"
    let ?rest = "take i remaining @ drop (Suc i) remaining"
    let ?loc = "\<lparr>lat = latitude ?n, lng = longitude ?n, area = patient_area ?n\<rparr>"
    have "\<exists>out. route_loop (optimized @ [?n]) ?rest ?loc = Some out
            \<and> mset out = mset (optimized @ [?n]) + mset ?rest"
    proof (rule "1.IH")
      show "0 < length remaining" using False by simp
      show "i = fst (nearest_scan cur remaining 0 (0, None))" by (rule i_def)
      show "([?n], ?rest) = splice1 i remaining" using sp by simp
      show "[?n] = ?n # []" by simp
    qed
    then obtain out where out: "route_loop (optimized @ [?n]) ?rest ?loc = Some out"
      and m: "mset out = mset (optimized @ [?n]) + mset ?rest"
      by blast
    have "route_loop optimized remaining cur = route_loop (optimized @ [?n]) ?rest ?loc"
      using False sp by (subst route_loop.simps) (simp add: i_def [symmetric] Let_def)
    moreover have "mset (optimized @ [?n]) + mset ?rest = mset optimized + mset remaining"
      using mset_remove_nth [OF i] by (simp add: ac_simps)
    ultimately show ?thesis using out m by simp
  qed
qed

text \<open>
  Claim C9. For every patient list and start location, \<open>optimizeRouteByDistance\<close> returns
  a list (the loop ends without reading past the list) that is a permutation of its input:
  the same patients, each as often as in the input, and so the same length.
\<close>

theorem optimizeRouteByDistance_permutation:
  "\<exists>out. optimizeRouteByDistance (Some ps) startLocation = Some out
         \<and> mset out = mset ps \<and> length out = length ps"
proof -
  have "\<exists>out. optimizeRouteByDistance (Some ps) startLocation = Some out
         \<and> mset out = mset ps"
    using route_loop_permutes [of "[]" ps]
    by (auto simp: optimizeRouteByDistance_def)
  then show ?thesis
    by (metis size_mset)
qed


theorem optimizeRouteByDistance_permutation_witness:
  "optimizeRouteByDistance
     (Some [example_patient 1 None\<lparr>patient_area := Some ''Pateniemi''\<rparr>,
            example_patient 2 None,
            example_patient 3 None\<lparr>patient_area := Some ''Raksila''\<rparr>])
     (Some \<lparr>lat = None, lng = None, area = Some ''Raksila''\<rparr>)
   = Some [example_patient 3 None\<lparr>patient_area := Some ''Raksila''\<rparr>,
           example_patient 2 None,
           example_patient 1 None\<lparr>patient_area := Some ''Pateniemi''\<rparr>]
   \<and> mset [example_patient 3 None\<lparr>patient_area := Some ''Raksila''\<rparr>,
            example_patient 2 None,
            example_patient 1 None\<lparr>patient_area := Some ''Pateniemi''\<rparr>]
     = mset [example_patient 1 None\<lparr>patient_area := Some ''Pateniemi''\<rparr>,
             example_patient 2 None,
             example_patient 3 None\<lparr>patient_area := Some ''Raksila''\<rparr>]"
proof -
  let ?ps = "[example_patient 1 None\<lparr>patient_area := Some ''Pateniemi''\<rparr>,
              example_patient 2 None,
              example_patient 3 None\<lparr>patient_area := Some ''Raksila''\<rparr>]"
  let ?start = "Some \<lparr>lat = None, lng = None, area = Some ''Raksila''\<rparr>"
  have route: "optimizeRouteByDistance (Some ?ps) ?start
        = Some [example_patient 3 None\<lparr>patient_area := Some ''Raksila''\<rparr>,
                example_patient 2 None,
                example_patient 1 None\<lparr>patient_area := Some ''Pateniemi''\<rparr>]"
    by (simp add: optimizeRouteByDistance_def example_patient_def splice1_def
          candidate_distance_def truthy_num_def getZoneBasedTravelTime_def truthy_str_def
          ZONE_TRAVEL_TIME_def)
  from optimizeRouteByDistance_permutation [of ?ps ?start] route show ?thesis
    by auto
qed

subsection \<open>Clock times\<close>

lemma is_digit_digit_char: "d < 10 \<Longrightarrow> is_digit (digit_char d)"
  by (simp add: is_digit_def digit_char_def)

lemma digit_value_digit_char: "d < 10 \<Longrightarrow> digit_value (digit_char d) = d"
  by (simp add: digit_value_def digit_char_def)

lemma colon_not_digit: "list_all is_digit s \<Longrightarrow> CHR '':'' \<notin> set s"
  by (auto simp: list_all_iff is_digit_def)

lemma toString_nat_digits: "list_all is_digit (toString_nat n)"
  by (induction n rule: toString_nat.induct)
     (subst toString_nat.simps, simp add: is_digit_digit_char)

lemma toString_nat_value:
  "foldl (\<lambda>acc c. acc * 10 + digit_value c) 0 (toString_nat n) = n"
  by (induction n rule: toString_nat.induct)
     (subst toString_nat.simps, simp add: digit_value_digit_char)

lemma js_Number_toString_nat: "js_Number (toString_nat n) = Some n"
  by (simp add: js_Number_def toString_nat_digits toString_nat_value)

lemma foldl_zeros:
  "foldl (\<lambda>acc c. acc * 10 + digit_value c) 0 (replicate k (CHR ''0'')) = 0"
  by (induction k) (simp_all add: digit_value_def)

lemma padStart2_digits: "list_all is_digit s \<Longrightarrow> list_all is_digit (padStart2 s)"
  by (auto simp: padStart2_def is_digit_def list_all_iff Let_def)

lemma js_Number_padStart2:
  "list_all is_digit s \<Longrightarrow> js_Number (padStart2 s) = js_Number s"
proof -
  assume d: "list_all is_digit s"
  have "foldl (\<lambda>acc c. acc * 10 + digit_value c) 0 (padStart2 s)
        = foldl (\<lambda>acc c. acc * 10 + digit_value c) 0 s"
    by (simp add: padStart2_def foldl_zeros)
  with d padStart2_digits [OF d] show ?thesis
    by (simp add: js_Number_def)
qed

lemma split_colon_no_colon: "CHR '':'' \<notin> set s \<Longrightarrow> split_colon s = [s]"
  by (induction s) auto

lemma split_colon_append:
  "CHR '':'' \<notin> set a \<Longrightarrow> split_colon (a @ CHR '':'' # b) = a # split_colon b"
  by (induction a) auto

lemma minutes_of_day_format_time: "minutes_of_day (format_time (Some t)) = Some t"
proof -
  let ?h = "padStart2 (toString_nat (t div 60))" and ?m = "padStart2 (toString_nat (t mod 60))"
  have dh: "list_all is_digit ?h" and dm: "list_all is_digit ?m"
    by (simp_all add: padStart2_digits toString_nat_digits)
  have "split_colon (?h @ CHR '':'' # ?m) = [?h, ?m]"
    using dh dm by (simp add: split_colon_append split_colon_no_colon colon_not_digit)
  moreover have "js_Number ?h = Some (t div 60)" "js_Number ?m = Some (t mod 60)"
    by (simp_all add: js_Number_padStart2 toString_nat_digits js_Number_toString_nat)
  ultimately show ?thesis
    by (simp add: minutes_of_day_def split_hour_min_def format_time_def toString_num_def)
qed

lemma digit_char_zero: "digit_char 0 = CHR ''0''"
  by code_simp

lemma padStart2_two_digits:
  "n < 100 \<Longrightarrow> padStart2 (toString_nat n) = [digit_char (n div 10), digit_char (n mod 10)]"
proof (cases "n < 10")
  case True
  then show ?thesis
    by (subst toString_nat.simps) (simp add: padStart2_def digit_char_zero)
next
  case False
  assume "n < 100"
  with False have "n div 10 < 10" by simp
  with False show ?thesis
    by (simp add: padStart2_def toString_nat.simps [of n] toString_nat.simps [of "n div 10"])
qed

lemma format_time_HHMM:
  "t < 6000 \<Longrightarrow> format_time (Some t) = HHMM t"
  by (simp add: format_time_def toString_num_def HHMM_def two_digits_def padStart2_two_digits)

subsection \<open>Slot Calculator\<close>

lemma store_call_tables [simp]:
  "patients (snd (store_call s)) = patients s"
  "working_hours (snd (store_call s)) = working_hours s"
  "patient_assignments (snd (store_call s)) = patient_assignments s"
  "schedules (snd (store_call s)) = schedules s"
  "outcomes (snd (store_call s)) = tl (outcomes s)"
  by (simp_all add: store_call_def split: list.splits)

lemma store_call_failed:
  "fst (store_call s) = (case outcomes s of [] \<Rightarrow> False | f # _ \<Rightarrow> f)"
  by (simp add: store_call_def split: list.splits)

lemma two_reads_succeed:
  assumes "True \<notin> set (take 2 (outcomes s))"
  shows "\<not> fst (store_call s)" and "\<not> fst (store_call (snd (store_call s)))"
proof -
  show "\<not> fst (store_call s)"
    using assms by (cases "outcomes s") (auto simp: store_call_failed)
  show "\<not> fst (store_call (snd (store_call s)))"
    using assms
    by (cases "outcomes s"; cases "tl (outcomes s)") (auto simp: store_call_failed)
qed

lemma query_after_call [simp]:
  "working_hours_query (snd (store_call s)) p d = working_hours_query s p d"
  "assignedPatients_query (snd (store_call s)) p v = assignedPatients_query s p v"
  by (simp_all add: working_hours_query_def assignedPatients_query_def)

text \<open>The Slot Calculator, once its two reads have succeeded.\<close>

lemma calculateAvailableTimeSlots_reads_ok:
  assumes "True \<notin> set (take 2 (outcomes s))"
  shows "fst (calculateAvailableTimeSlots getDay professionalId visitDate existingAssignments s) =
     (case single (working_hours_query s professionalId
                     (if getDay visitDate = 0 then 7 else getDay visitDate)) of
        None \<Rightarrow> \<lparr>available = False, reason = Some ''No working hours for this day'',
                  suggestedTime = None, slots = None,
                  patientCountOnDay = Some 0, maxCapacity = Some 4\<rparr>
      | Some wh \<Rightarrow>
          (let c = active_count s professionalId visitDate
                   + length (filter (\<lambda>a. m_professional_id a = professionalId
                                         \<and> m_scheduled_visit_date a = visitDate) existingAssignments)
           in if 4 \<le> c then
                \<lparr>available = False,
                 reason = Some (''Professional has '' @ toString_nat c @ ''/'' @ toString_nat 4 @ '' patients''),
                 suggestedTime = None, slots = None,
                 patientCountOnDay = Some c, maxCapacity = Some 4\<rparr>
              else
                (let slotTime = map_option (\<lambda>d. d + c * 120) (minutes_of_day (start_time wh))
                 in if past_day_end slotTime (minutes_of_day (end_time wh)) then
                      \<lparr>available = False, reason = Some ''No time slots available'',
                       suggestedTime = None, slots = None,
                       patientCountOnDay = Some c, maxCapacity = None\<rparr>
                    else
                      \<lparr>available = True, reason = None,
                       suggestedTime = Some (format_time slotTime),
                       slots = Some [format_time slotTime],
                       patientCountOnDay = Some c, maxCapacity = Some 4\<rparr>)))"
  using two_reads_succeed [OF assms]
  by (simp add: calculateAvailableTimeSlots_def Let_def split_beta active_count_def
        split: option.splits)

text \<open>
  Claim C5. Once the two reads of the Slot Calculator have succeeded, with \<open>c\<close> the number
  of active assignments of the professional on the date in the store plus the in-batch
  assignments passed for that professional and date: when the weekday has no working-hours
  row the result is unavailable, with the no-working-hours reason and a patient count of 0;
  when \<open>c \<ge> 4\<close> it is unavailable, reporting \<open>c/4 patients\<close>; when \<open>c < 4\<close> and the row's
  times read as \<open>dayStart\<close> and \<open>dayEnd\<close> minutes, the result is unavailable with the reason
  No time slots available exactly when \<open>dayStart + c * 120 + 60\<close> exceeds \<open>dayEnd\<close>, and is
  otherwise available with the start time \<open>dayStart + c * 120\<close>, written as zero-padded HH:MM.
\<close>

theorem calculateAvailableTimeSlots_cases:
  assumes reads: "True \<notin> set (take 2 (outcomes s))"
  shows
   "(let dayOfWeek = (if getDay visitDate = 0 then 7 else getDay visitDate);
         rows = working_hours_query s professionalId dayOfWeek;
         c = active_count s professionalId visitDate
             + length (filter (\<lambda>a. m_professional_id a = professionalId
                                   \<and> m_scheduled_visit_date a = visitDate) existingAssignments);
         r = fst (calculateAvailableTimeSlots getDay professionalId visitDate existingAssignments s)
     in (rows = [] \<longrightarrow>
           \<not> available r \<and> reason r = Some ''No working hours for this day''
           \<and> patientCountOnDay r = Some 0)
      \<and> (\<forall>wh. rows = [wh] \<and> 4 \<le> c \<longrightarrow>
           \<not> available r
           \<and> reason r = Some (''Professional has '' @ toString_nat c @ ''/'' @ toString_nat 4 @ '' patients'')
           \<and> patientCountOnDay r = Some c \<and> maxCapacity r = Some 4)
      \<and> (\<forall>wh dayStart dayEnd.
           rows = [wh] \<and> c < 4 \<and> minutes_of_day (start_time wh) = Some dayStart
           \<and> minutes_of_day (end_time wh) = Some dayEnd \<longrightarrow>
           (if dayEnd < dayStart + c * 120 + 60
            then \<not> available r \<and> reason r = Some ''No time slots available''
                 \<and> patientCountOnDay r = Some c
            else available r \<and> suggestedTime r = Some (format_time (Some (dayStart + c * 120)))
                 \<and> patientCountOnDay r = Some c
                 \<and> (dayEnd \<le> 24 * 60 \<longrightarrow> suggestedTime r = Some (HHMM (dayStart + c * 120))))))"
  unfolding Let_def calculateAvailableTimeSlots_reads_ok [OF reads]
  by (auto simp: single_def past_day_end_def Let_def format_time_HHMM)

theorem calculateAvailableTimeSlots_cases_witness:
  "True \<notin> set (take 2 (outcomes example_store))
   \<and> suggestedTime (fst (calculateAvailableTimeSlots example_getDay 7 ''2025-03-03'' [] example_store))
       = Some ''08:00''
   \<and> suggestedTime (fst (calculateAvailableTimeSlots example_getDay 7 ''2025-03-03''
         [\<lparr>m_professional_id = 7, m_scheduled_visit_date = ''2025-03-03'',
           m_scheduled_visit_time = Some ''08:00''\<rparr>] example_store))
       = Some ''10:00''
   \<and> reason (fst (calculateAvailableTimeSlots example_getDay 9 ''2025-03-03'' [] example_store))
       = Some ''No time slots available''
   \<and> reason (fst (calculateAvailableTimeSlots example_getDay 7 ''2025-03-02'' [] example_store))
       = Some ''No working hours for this day''
   \<and> reason (fst (calculateAvailableTimeSlots example_getDay 7 ''2025-03-03''
         (replicate 4 \<lparr>m_professional_id = 7, m_scheduled_visit_date = ''2025-03-03'',
                        m_scheduled_visit_time = None\<rparr>) example_store))
       = Some ''Professional has 4/4 patients''"
proof -
  have reads: "True \<notin> set (take 2 (outcomes example_store))"
    by (simp add: example_store_def)
  note cases = calculateAvailableTimeSlots_cases [OF reads, unfolded Let_def]
  have times: "minutes_of_day ''08:00:00'' = Some 480" "minutes_of_day ''16:00:00'' = Some 960"
    "minutes_of_day ''15:30'' = Some 930" "minutes_of_day ''16:00'' = Some 960"
    by code_simp+
  have texts: "HHMM 480 = ''08:00''" "HHMM 600 = ''10:00''" "toString_nat 4 = ''4''"
    "format_time (Some 480) = ''08:00''" "format_time (Some 600) = ''10:00''"
    by code_simp+
  note defs = example_store_def example_getDay_def working_hours_query_def active_count_def
    assignedPatients_query_def
  have "suggestedTime (fst (calculateAvailableTimeSlots example_getDay 7 ''2025-03-03'' [] example_store))
       = Some ''08:00''"
    using cases [where getDay = example_getDay and visitDate = "''2025-03-03''" and professionalId = 7 and existingAssignments = "[]"] by (simp add: defs times texts)
  moreover have "suggestedTime (fst (calculateAvailableTimeSlots example_getDay 7 ''2025-03-03''
         [\<lparr>m_professional_id = 7, m_scheduled_visit_date = ''2025-03-03'',
           m_scheduled_visit_time = Some ''08:00''\<rparr>] example_store))
       = Some ''10:00''"
    using cases [where getDay = example_getDay and visitDate = "''2025-03-03''" and professionalId = 7
        and existingAssignments = "[\<lparr>m_professional_id = 7, m_scheduled_visit_date = ''2025-03-03'',
           m_scheduled_visit_time = Some ''08:00''\<rparr>]"]
    by (simp add: defs times texts)
  moreover have "reason (fst (calculateAvailableTimeSlots example_getDay 9 ''2025-03-03'' [] example_store))
       = Some ''No time slots available''"
    using cases [where getDay = example_getDay and visitDate = "''2025-03-03''" and professionalId = 9 and existingAssignments = "[]"] by (simp add: defs times texts)
  moreover have "reason (fst (calculateAvailableTimeSlots example_getDay 7 ''2025-03-02'' [] example_store))
       = Some ''No working hours for this day''"
    using cases [where getDay = example_getDay and visitDate = "''2025-03-02''" and professionalId = 7 and existingAssignments = "[]"] by (simp add: defs times texts)
  moreover have "reason (fst (calculateAvailableTimeSlots example_getDay 7 ''2025-03-03''
         (replicate 4 \<lparr>m_professional_id = 7, m_scheduled_visit_date = ''2025-03-03'',
                        m_scheduled_visit_time = None\<rparr>) example_store))
       = Some ''Professional has 4/4 patients''"
  proof -
    let ?m = "\<lparr>m_professional_id = 7, m_scheduled_visit_date = ''2025-03-03'',
               m_scheduled_visit_time = None\<rparr>"
    have count: "active_count example_store 7 ''2025-03-03''
          + length (filter (\<lambda>a. m_professional_id a = 7 \<and> m_scheduled_visit_date a = ''2025-03-03'')
                      (replicate 4 ?m)) = 4"
      by (simp add: defs)
    have rows: "working_hours_query example_store 7
          (if example_getDay ''2025-03-03'' = 0 then 7 else example_getDay ''2025-03-03'')
          = [\<lparr>wh_professional_id = 7, weekday = 1, start_time = ''08:00:00'',
               end_time = ''16:00:00''\<rparr>]"
      by (simp add: defs)
    from cases [where getDay = example_getDay and visitDate = "''2025-03-03''"
        and professionalId = 7 and existingAssignments = "replicate 4 ?m"]
    show ?thesis
      unfolding count rows by (simp add: texts)
  qed
  ultimately show ?thesis using reads by simp
qed

subsection \<open>Assignment Orchestrator\<close>

lemma calculateAvailableTimeSlots_tables [simp]:
  "patients (snd (calculateAvailableTimeSlots getDay p d mem s)) = patients s"
  "working_hours (snd (calculateAvailableTimeSlots getDay p d mem s)) = working_hours s"
  "patient_assignments (snd (calculateAvailableTimeSlots getDay p d mem s)) = patient_assignments s"
  "schedules (snd (calculateAvailableTimeSlots getDay p d mem s)) = schedules s"
  by (simp_all add: calculateAvailableTimeSlots_def Let_def split_beta split: option.splits)

lemma calculateAvailableTimeSlots_available:
  assumes "available (fst (calculateAvailableTimeSlots getDay p d mem s))"
  shows "\<exists>wh. single (working_hours_query s p (if getDay d = 0 then 7 else getDay d)) = Some wh
     \<and> active_count s p d
         + length (filter (\<lambda>a. m_professional_id a = p \<and> m_scheduled_visit_date a = d) mem) < 4
     \<and> \<not> past_day_end
           (map_option (\<lambda>x. x + (active_count s p d
               + length (filter (\<lambda>a. m_professional_id a = p \<and> m_scheduled_visit_date a = d) mem)) * 120)
              (minutes_of_day (start_time wh)))
           (minutes_of_day (end_time wh))
     \<and> suggestedTime (fst (calculateAvailableTimeSlots getDay p d mem s))
         = Some (format_time
             (map_option (\<lambda>x. x + (active_count s p d
                 + length (filter (\<lambda>a. m_professional_id a = p \<and> m_scheduled_visit_date a = d) mem)) * 120)
                (minutes_of_day (start_time wh))))
     \<and> patientCountOnDay (fst (calculateAvailableTimeSlots getDay p d mem s))
         = Some (active_count s p d
             + length (filter (\<lambda>a. m_professional_id a = p \<and> m_scheduled_visit_date a = d) mem))"
  using assms
  by (auto simp: calculateAvailableTimeSlots_def Let_def split_beta active_count_def
           split: option.splits if_splits)

text \<open>What a call of \<open>smartAssignPatient\<close> that reports success has done.\<close>

lemma smartAssignPatient_success:
  assumes "success (fst (smartAssignPatient getDay patientId p d assignedById s))"
  shows "\<exists>patient wh startTime.
       single (filter (\<lambda>x. patient_id x = patientId) (patients s)) = Some patient
     \<and> single (working_hours_query s p (if getDay d = 0 then 7 else getDay d)) = Some wh
     \<and> active_count s p d < 4
     \<and> \<not> past_day_end
           (map_option (\<lambda>x. x + active_count s p d * 120) (minutes_of_day (start_time wh)))
           (minutes_of_day (end_time wh))
     \<and> startTime = format_time
           (map_option (\<lambda>x. x + active_count s p d * 120) (minutes_of_day (start_time wh)))
     \<and> r_suggestedTime (fst (smartAssignPatient getDay patientId p d assignedById s)) = Some startTime
     \<and> created (fst (smartAssignPatient getDay patientId p d assignedById s))
         = Some \<lparr>assignment_id = fresh_assignment_id (patient_assignments s),
                 a_patient_id = patientId, a_professional_id = p, assigned_by_id = assignedById,
                 scheduled_visit_date = Some d, scheduled_visit_time = Some startTime,
                 status = ''active'', assignment_reason = None\<rparr>
     \<and> patient_assignments (snd (smartAssignPatient getDay patientId p d assignedById s))
         = patient_assignments s
           @ [\<lparr>assignment_id = fresh_assignment_id (patient_assignments s),
                a_patient_id = patientId, a_professional_id = p, assigned_by_id = assignedById,
                scheduled_visit_date = Some d, scheduled_visit_time = Some startTime,
                status = ''active'', assignment_reason = None\<rparr>]"
proof -
  let ?s1 = "snd (store_call s)"
  let ?slots = "fst (calculateAvailableTimeSlots getDay p d [] ?s1)"
  from assms have av: "available ?slots"
    by (auto simp: smartAssignPatient_def Let_def split_beta failure_def
             split: option.splits if_splits)
  from calculateAvailableTimeSlots_available [OF av]
  obtain wh where wh: "single (working_hours_query s p (if getDay d = 0 then 7 else getDay d)) = Some wh"
    and c: "active_count s p d < 4"
    and e: "\<not> past_day_end
           (map_option (\<lambda>x. x + active_count s p d * 120) (minutes_of_day (start_time wh)))
           (minutes_of_day (end_time wh))"
    and t: "suggestedTime ?slots = Some (format_time
           (map_option (\<lambda>x. x + active_count s p d * 120) (minutes_of_day (start_time wh))))"
    by (auto simp: active_count_def)
  from assms av t wh c e show ?thesis
    by (auto simp: smartAssignPatient_def Let_def split_beta failure_def
             split: option.splits if_splits)
qed

lemma smartAssignPatient_failure:
  assumes "\<not> success (fst (smartAssignPatient getDay patientId p d assignedById s))"
  shows "patient_assignments (snd (smartAssignPatient getDay patientId p d assignedById s))
         = patient_assignments s"
proof -
  let ?s1 = "snd (store_call s)"
  let ?slots = "fst (calculateAvailableTimeSlots getDay p d [] ?s1)"
  show ?thesis
  proof (cases "available ?slots")
    case True
    from calculateAvailableTimeSlots_available [OF True]
    have "suggestedTime ?slots \<noteq> None" by auto
    with assms True show ?thesis
      by (auto simp: smartAssignPatient_def Let_def split_beta failure_def
               split: option.splits if_splits)
  next
    case False
    then show ?thesis
      by (auto simp: smartAssignPatient_def Let_def split_beta failure_def
               split: option.splits if_splits)
  qed
qed

lemma smartAssignPatient_tables [simp]:
  "patients (snd (smartAssignPatient getDay patientId p d assignedById s)) = patients s"
  "working_hours (snd (smartAssignPatient getDay patientId p d assignedById s)) = working_hours s"
  by (simp_all add: smartAssignPatient_def Let_def split_beta split: option.splits)

lemma calculateAvailableTimeSlots_outcomes:
  "available (fst (calculateAvailableTimeSlots getDay p d mem s)) \<Longrightarrow>
   outcomes (snd (calculateAvailableTimeSlots getDay p d mem s)) = drop 2 (outcomes s)"
  by (auto simp: calculateAvailableTimeSlots_def Let_def split_beta drop_Suc numeral_2_eq_2
                 drop_tl [symmetric]
           split: option.splits if_splits)

text \<open>A failed assignment insert (the fourth store call) makes the call a failure.\<close>

lemma assignment_insert_failure_reported:
  assumes "drop 3 (outcomes s) = True # later"
  shows "\<not> success (fst (smartAssignPatient getDay patientId p d assignedById s))"
proof
  let ?s1 = "snd (store_call s)"
  let ?calc = "calculateAvailableTimeSlots getDay p d [] ?s1"
  assume ok: "success (fst (smartAssignPatient getDay patientId p d assignedById s))"
  then have av: "available (fst ?calc)"
    by (auto simp: smartAssignPatient_def Let_def split_beta failure_def
             split: option.splits if_splits)
  have "outcomes (snd ?calc) = drop 2 (outcomes ?s1)"
    using av by (rule calculateAvailableTimeSlots_outcomes)
  also have "\<dots> = drop 3 (outcomes s)"
    by (simp add: drop_Suc numeral_3_eq_3 numeral_2_eq_2 drop_tl)
  finally have "fst (store_call (snd ?calc))"
    using assms by (simp add: store_call_failed)
  with ok av show False
    by (auto simp: smartAssignPatient_def Let_def split_beta failure_def
             split: option.splits if_splits)
qed

text \<open>
  A failed schedule insert (the fifth store call) leaves a successful call successful: the
  schedule entry is missing and the result does not say so.
\<close>

lemma schedule_insert_failure_ignored:
  assumes "success (fst (smartAssignPatient getDay patientId p d assignedById s))"
    and "drop 4 (outcomes s) = True # later"
  shows "schedules (snd (smartAssignPatient getDay patientId p d assignedById s)) = schedules s"
proof -
  let ?s1 = "snd (store_call s)"
  let ?calc = "calculateAvailableTimeSlots getDay p d [] ?s1"
  let ?s3 = "snd (store_call (snd ?calc))"
  from assms(1) have av: "available (fst ?calc)"
    by (auto simp: smartAssignPatient_def Let_def split_beta failure_def
             split: option.splits if_splits)
  have "outcomes (snd ?calc) = drop 2 (outcomes ?s1)"
    using av by (rule calculateAvailableTimeSlots_outcomes)
  then have "outcomes ?s3 = drop 4 (outcomes s)"
    by (simp add: drop_Suc numeral_2_eq_2 drop_tl eval_nat_numeral)
  then have "fst (store_call (?s3\<lparr>patient_assignments := x\<rparr>))" for x
    using assms(2) by (simp add: store_call_failed)
  with assms(1) av show ?thesis
    by (auto simp: smartAssignPatient_def Let_def split_beta failure_def
             split: option.splits if_splits)
qed

text \<open>
  Claim C4. A call of \<open>smartAssignPatient\<close> in which the assignment insert (step 3) or the
  schedule insert (step 4) fails should return a failure result. The code does so for the
  assignment insert (\<open>assignment_insert_failure_reported\<close>), but it never looks at the result
  of the schedule insert: in the example store, with the first four store calls succeeding
  and the fifth, the schedule insert, failing, the call returns success without an error,
  the assignment is stored and no schedule entry is.
\<close>

theorem smartAssignPatient_ignores_schedule_failure:
  "success (fst (smartAssignPatient example_getDay 1 7 ''2025-03-03'' None
              (example_store\<lparr>outcomes := [False, False, False, False, True]\<rparr>)))
   \<and> error (fst (smartAssignPatient example_getDay 1 7 ''2025-03-03'' None
              (example_store\<lparr>outcomes := [False, False, False, False, True]\<rparr>))) = None
   \<and> map scheduled_visit_time (patient_assignments (snd (smartAssignPatient example_getDay 1 7 ''2025-03-03'' None
              (example_store\<lparr>outcomes := [False, False, False, False, True]\<rparr>)))) = [Some ''08:00'']
   \<and> schedules (snd (smartAssignPatient example_getDay 1 7 ''2025-03-03'' None
              (example_store\<lparr>outcomes := [False, False, False, False, True]\<rparr>))) = []"
  by code_simp

subsection \<open>Daily capacity\<close>

lemma active_count_append:
  "patient_assignments s' = patient_assignments s @ [a] \<Longrightarrow>
   active_count s' p d = active_count s p d
     + (if a_professional_id a = p \<and> scheduled_visit_date a = Some d \<and> status a = ''active''
        then 1 else 0)"
  by (simp add: active_count_def assignedPatients_query_def)

lemma active_count_same:
  "patient_assignments s' = patient_assignments s \<Longrightarrow> active_count s' p d = active_count s p d"
  by (simp add: active_count_def assignedPatients_query_def)

lemma smartAssignPatient_count:
  "active_count (snd (smartAssignPatient getDay patientId p d assignedById s)) p' d'
   = active_count s p' d'
     + (if success (fst (smartAssignPatient getDay patientId p d assignedById s)) \<and> p' = p \<and> d' = d
        then 1 else 0)"
proof (cases "success (fst (smartAssignPatient getDay patientId p d assignedById s))")
  case True
  from smartAssignPatient_success [OF True] obtain startTime where
    pa: "patient_assignments (snd (smartAssignPatient getDay patientId p d assignedById s))
       = patient_assignments s
           @ [\<lparr>assignment_id = fresh_assignment_id (patient_assignments s),
                a_patient_id = patientId, a_professional_id = p, assigned_by_id = assignedById,
                scheduled_visit_date = Some d, scheduled_visit_time = Some startTime,
                status = ''active'', assignment_reason = None\<rparr>]"
    by blast
  show ?thesis
    using True by (simp add: active_count_append [OF pa])
next
  case False
  with active_count_same [OF smartAssignPatient_failure [OF False]] show ?thesis
    by simp
qed


lemma smartAssignPatient_capacity:
  assumes "\<forall>p d. active_count s p d \<le> 4"
  shows "active_count (snd (smartAssignPatient getDay patientId p d assignedById s)) p' d' \<le> 4"
proof (cases "success (fst (smartAssignPatient getDay patientId p d assignedById s))")
  case True
  from smartAssignPatient_success [OF True] have "active_count s p d < 4" by auto
  with assms [rule_format, of p' d'] show ?thesis
    by (auto simp: smartAssignPatient_count)
next
  case False
  with assms [rule_format, of p' d'] show ?thesis
    by (simp add: smartAssignPatient_count)
qed

lemma bulk_loop_capacity:
  "\<forall>p d. active_count s p d \<le> 4 \<Longrightarrow>
   active_count (snd (snd (bulk_loop getDay assignedById items res mem s))) p' d' \<le> 4"
proof (induction items arbitrary: res mem s)
  case Nil
  then show ?case by simp
next
  case (Cons item items)
  have "\<forall>p d. active_count (snd (smartAssignPatient getDay (item_patient_id item)
            (item_professional_id item) (item_date item) assignedById s)) p d \<le> 4"
    using Cons.prems by (simp add: smartAssignPatient_capacity)
  from Cons.IH [OF this] show ?case
    by (simp add: split_beta Let_def)
qed

lemma length_filter_map_le:
  "(\<And>x. P (f x) \<Longrightarrow> Q x) \<Longrightarrow> length (filter P (map f xs)) \<le> length (filter Q xs)"
  by (induction xs) (auto simp: le_SucI)

lemma reassign_count:
  "active_count (snd (reassign oldAssignmentId new_professional_id reason_text user_id s)) p d
   \<le> active_count s p d"
proof -
  let ?upd = "map (\<lambda>a. if assignment_id a = oldAssignmentId then a\<lparr>status := ''reassigned''\<rparr> else a)
                (patient_assignments s)"
  let ?act = "\<lambda>a. a_professional_id a = p \<and> scheduled_visit_date a = Some d \<and> status a = ''active''"
  have upd: "length (filter ?act ?upd) \<le> length (filter ?act (patient_assignments s))"
    by (rule length_filter_map_le) (auto split: if_splits)
  show ?thesis
    using upd
    by (auto simp: reassign_def Let_def split_beta active_count_def assignedPatients_query_def
             split: option.splits if_splits)
qed

lemma apply_operation_capacity:
  "\<forall>p d. active_count s p d \<le> 4 \<Longrightarrow> active_count (apply_operation getDay op s) p' d' \<le> 4"
proof (cases op)
  case (AssignOne patientId p d assignedById)
  assume "\<forall>p d. active_count s p d \<le> 4"
  then show ?thesis using AssignOne by (simp add: smartAssignPatient_capacity)
next
  case (AssignBulk items assignedById)
  assume "\<forall>p d. active_count s p d \<le> 4"
  then show ?thesis using AssignBulk
    by (simp add: bulkAssignPatients_def split_beta bulk_loop_capacity)
next
  case (Reassign oldAssignmentId new_professional_id reason_text user_id)
  assume "\<forall>p d. active_count s p d \<le> 4"
  then have "active_count s p' d' \<le> 4" by simp
  with reassign_count [of oldAssignmentId new_professional_id reason_text user_id s p' d']
  show ?thesis using Reassign by simp
qed

text \<open>The two parts of \<open>smartAssignPatient\<close> make up the whole call.\<close>

lemma smartAssignPatient_phases:
  "smartAssignPatient getDay patientId professionalId date assignedById s =
     (case smartAssignPatient_reads getDay patientId professionalId date s of
        (pending, s') \<Rightarrow>
          smartAssignPatient_rest patientId professionalId date assignedById pending s')"
  by (simp add: smartAssignPatient_def smartAssignPatient_reads_def smartAssignPatient_writes_def
        smartAssignPatient_rest_def Let_def split_beta split: option.splits)

text \<open>
  Claim C1, as stated, fails when two requests overlap. In a store where professional 7 has
  three active assignments on 2025-03-03, two calls of \<open>smartAssignPatient\<close> for that
  professional and date both read the count 3 before either inserts; both succeed, both
  get 14:00, and the professional has five active assignments on that date.
\<close>

theorem overlapping_calls_exceed_capacity_counterexample:
  "active_count example_store_three 7 ''2025-03-03'' = 3
   \<and> success (fst (fst (overlapping_smartAssignPatient example_getDay
         4 7 ''2025-03-03'' None 5 7 ''2025-03-03'' None example_store_three)))
   \<and> success (snd (fst (overlapping_smartAssignPatient example_getDay
         4 7 ''2025-03-03'' None 5 7 ''2025-03-03'' None example_store_three)))
   \<and> r_suggestedTime (fst (fst (overlapping_smartAssignPatient example_getDay
         4 7 ''2025-03-03'' None 5 7 ''2025-03-03'' None example_store_three))) = Some ''14:00''
   \<and> r_suggestedTime (snd (fst (overlapping_smartAssignPatient example_getDay
         4 7 ''2025-03-03'' None 5 7 ''2025-03-03'' None example_store_three))) = Some ''14:00''
   \<and> active_count (snd (overlapping_smartAssignPatient example_getDay
         4 7 ''2025-03-03'' None 5 7 ''2025-03-03'' None example_store_three)) 7 ''2025-03-03'' = 5
   \<and> \<not> active_count (snd (overlapping_smartAssignPatient example_getDay
         4 7 ''2025-03-03'' None 5 7 ''2025-03-03'' None example_store_three)) 7 ''2025-03-03'' \<le> 4"
  by code_simp

text \<open>
  Claim C1, amended. From every store in which no professional has more than 4 active
  assignments on any date, every sequence of the operations assignOne, assignBulk and
  reassign that are executed one after another, each one complete before the next begins,
  leads to a store with the same property. (Reassign checks no capacity, but the assignment
  it inserts has no visit date, so it is counted on no date.)
\<close>

theorem capacity_never_exceeded:
  "\<forall>p d. active_count s p d \<le> 4 \<Longrightarrow> active_count (run getDay ops s) p' d' \<le> 4"
proof (induction ops arbitrary: s)
  case Nil
  then show ?case by simp
next
  case (Cons op ops)
  have "\<forall>p d. active_count (apply_operation getDay op s) p d \<le> 4"
    using Cons.prems by (simp add: apply_operation_capacity)
  from Cons.IH [OF this] show ?case by simp
qed


theorem capacity_never_exceeded_witness:
  "(\<forall>p d. active_count example_store p d \<le> 4)
   \<and> active_count
         (run example_getDay
            [AssignBulk [example_item 1 7, example_item 2 7, example_item 3 7, example_item 4 7,
                         example_item 5 7] None,
             Reassign 1 7 None 9,
             AssignOne 5 7 ''2025-03-03'' None,
             AssignOne 3 7 ''2025-03-03'' None] example_store) 7 ''2025-03-03'' \<le> 4
   \<and> active_count
         (run example_getDay
            [AssignBulk [example_item 1 7, example_item 2 7, example_item 3 7, example_item 4 7,
                         example_item 5 7] None,
             Reassign 1 7 None 9,
             AssignOne 5 7 ''2025-03-03'' None,
             AssignOne 3 7 ''2025-03-03'' None] example_store) 7 ''2025-03-03'' = 4"
proof -
  have start: "\<forall>p d. active_count example_store p d \<le> 4"
    by (simp add: active_count_def assignedPatients_query_def example_store_def)
  have "active_count
         (run example_getDay
            [AssignBulk [example_item 1 7, example_item 2 7, example_item 3 7, example_item 4 7,
                         example_item 5 7] None,
             Reassign 1 7 None 9,
             AssignOne 5 7 ''2025-03-03'' None,
             AssignOne 3 7 ''2025-03-03'' None] example_store) 7 ''2025-03-03'' = 4"
    by code_simp
  with start capacity_never_exceeded [OF start] show ?thesis
    by blast
qed

subsection \<open>Bulk assignment\<close>

lemma bulk_loop_append:
  "bulk_loop getDay assignedById (xs @ ys) res mem s =
     (case bulk_loop getDay assignedById xs res mem s of
        (res1, mem1, s1) \<Rightarrow> bulk_loop getDay assignedById ys res1 mem1 s1)"
  by (induction xs arbitrary: res mem s) (simp_all add: split_beta Let_def)

lemma bulk_loop_results:
  "fst (bulk_loop getDay assignedById items res mem s)
   = res @ fst (bulk_loop getDay assignedById items [] [] s)"
proof (induction items arbitrary: res mem s)
  case Nil
  show ?case by simp
next
  case (Cons x items)
  let ?step = "smartAssignPatient getDay (item_patient_id x) (item_professional_id x)
                 (item_date x) assignedById s"
  have "fst (bulk_loop getDay assignedById (x # items) res mem s)
        = (res @ [(x, fst ?step)]) @ fst (bulk_loop getDay assignedById items [] [] (snd ?step))"
    using Cons.IH [of "res @ [(x, fst ?step)]" _ "snd ?step"]
    by (simp add: split_beta Let_def)
  moreover have "fst (bulk_loop getDay assignedById (x # items) [] [] s)
        = [(x, fst ?step)] @ fst (bulk_loop getDay assignedById items [] [] (snd ?step))"
    using Cons.IH [of "[(x, fst ?step)]" _ "snd ?step"]
    by (simp add: split_beta Let_def)
  ultimately show ?case by simp
qed

lemma bulk_loop_store:
  "snd (snd (bulk_loop getDay assignedById items res mem s))
   = snd (snd (bulk_loop getDay assignedById items [] [] s))"
proof (induction items arbitrary: res mem s)
  case Nil
  show ?case by simp
next
  case (Cons x items)
  let ?step = "smartAssignPatient getDay (item_patient_id x) (item_professional_id x)
                 (item_date x) assignedById s"
  have "snd (snd (bulk_loop getDay assignedById (x # items) res mem s))
        = snd (snd (bulk_loop getDay assignedById items [] [] (snd ?step)))"
    using Cons.IH [of "res @ [(x, fst ?step)]" _ "snd ?step"]
    by (simp add: split_beta Let_def)
  moreover have "snd (snd (bulk_loop getDay assignedById (x # items) [] [] s))
        = snd (snd (bulk_loop getDay assignedById items [] [] (snd ?step)))"
    using Cons.IH [of "[(x, fst ?step)]" _ "snd ?step"]
    by (simp add: split_beta Let_def)
  ultimately show ?case by simp
qed

text \<open>The in-batch list that the loop accumulates reaches no result and no table.\<close>

lemma bulk_loop_ignores_in_batch_list:
  "fst (bulk_loop getDay assignedById items res mem s)
     = fst (bulk_loop getDay assignedById items res mem' s)
   \<and> snd (snd (bulk_loop getDay assignedById items res mem s))
     = snd (snd (bulk_loop getDay assignedById items res mem' s))"
  using bulk_loop_results [of getDay assignedById items res mem s]
    bulk_loop_results [of getDay assignedById items res mem' s]
    bulk_loop_store [of getDay assignedById items res mem s]
    bulk_loop_store [of getDay assignedById items res mem' s]
  by simp

lemma bulk_loop_length:
  "length (fst (bulk_loop getDay assignedById items [] [] s)) = length items"
proof (induction items arbitrary: s)
  case Nil
  show ?case by simp
next
  case (Cons x items)
  let ?step = "smartAssignPatient getDay (item_patient_id x) (item_professional_id x)
                 (item_date x) assignedById s"
  have "fst (bulk_loop getDay assignedById (x # items) [] [] s)
        = [(x, fst ?step)] @ fst (bulk_loop getDay assignedById items [] [] (snd ?step))"
    using bulk_loop_results [of getDay assignedById items "[(x, fst ?step)]" _ "snd ?step"]
    by (simp add: split_beta Let_def)
  with Cons.IH [of "snd ?step"] show ?case by simp
qed

lemma bulk_loop_count:
  "active_count (snd (snd (bulk_loop getDay assignedById items [] [] s))) p d
   = active_count s p d
     + length (filter (\<lambda>(j, rj). success rj \<and> item_professional_id j = p \<and> item_date j = d)
                 (fst (bulk_loop getDay assignedById items [] [] s)))"
proof (induction items arbitrary: s)
  case Nil
  show ?case by simp
next
  case (Cons x items)
  let ?step = "smartAssignPatient getDay (item_patient_id x) (item_professional_id x)
                 (item_date x) assignedById s"
  have r: "fst (bulk_loop getDay assignedById (x # items) [] [] s)
        = [(x, fst ?step)] @ fst (bulk_loop getDay assignedById items [] [] (snd ?step))"
    using bulk_loop_results [of getDay assignedById items "[(x, fst ?step)]" _ "snd ?step"]
    by (simp add: split_beta Let_def)
  have st: "snd (snd (bulk_loop getDay assignedById (x # items) [] [] s))
        = snd (snd (bulk_loop getDay assignedById items [] [] (snd ?step)))"
    using bulk_loop_store [of getDay assignedById items "[(x, fst ?step)]" _ "snd ?step"]
    by (simp add: split_beta Let_def)
  show ?case
    unfolding r st Cons.IH [of "snd ?step"]
    by (auto simp: smartAssignPatient_count)
qed

lemma bulkAssignPatients_loop:
  "results (fst (bulkAssignPatients getDay items assignedById s))
     = fst (bulk_loop getDay assignedById items [] [] s)"
  "snd (bulkAssignPatients getDay items assignedById s)
     = snd (snd (bulk_loop getDay assignedById items [] [] s))"
  by (simp_all add: bulkAssignPatients_def split_beta)

lemma bulk_results_nth:
  "results (fst (bulkAssignPatients getDay (pre @ it # post) assignedById s)) ! length pre
   = (it, fst (smartAssignPatient getDay (item_patient_id it) (item_professional_id it)
                 (item_date it) assignedById (snd (bulkAssignPatients getDay pre assignedById s))))"
proof -
  let ?before = "bulk_loop getDay assignedById pre [] [] s"
  let ?step = "smartAssignPatient getDay (item_patient_id it) (item_professional_id it)
                 (item_date it) assignedById (snd (snd ?before))"
  have "fst (bulk_loop getDay assignedById (pre @ it # post) [] [] s)
        = (fst ?before @ [(it, fst ?step)])
          @ fst (bulk_loop getDay assignedById post [] [] (snd ?step))"
    using bulk_loop_results [of getDay assignedById post "fst ?before @ [(it, fst ?step)]" _ "snd ?step"]
    by (simp add: bulk_loop_append split_beta Let_def)
  then show ?thesis
    by (simp add: bulkAssignPatients_loop nth_append bulk_loop_length)
qed

lemma smartAssignPatient_slot:
  "success (fst (smartAssignPatient getDay patientId p d assignedById s)) \<Longrightarrow>
     available (fst (calculateAvailableTimeSlots getDay p d [] (snd (store_call s))))
     \<and> r_suggestedTime (fst (smartAssignPatient getDay patientId p d assignedById s))
         = suggestedTime (fst (calculateAvailableTimeSlots getDay p d [] (snd (store_call s))))"
  by (auto simp: smartAssignPatient_def Let_def split_beta failure_def
           split: option.splits if_splits)

lemma smartAssignPatient_unavailable:
  "\<not> fst (store_call s) \<Longrightarrow> single (filter (\<lambda>x. patient_id x = patientId) (patients s)) = Some patient \<Longrightarrow>
   \<not> available (fst (calculateAvailableTimeSlots getDay p d [] (snd (store_call s)))) \<Longrightarrow>
   fst (smartAssignPatient getDay patientId p d assignedById s)
     = failure (reason (fst (calculateAvailableTimeSlots getDay p d [] (snd (store_call s)))))"
  by (simp add: smartAssignPatient_def Let_def split_beta)

lemma bulk_loop_tables:
  "patients (snd (snd (bulk_loop getDay assignedById items res mem s))) = patients s"
  "working_hours (snd (snd (bulk_loop getDay assignedById items res mem s))) = working_hours s"
  by (induction items arbitrary: res mem s) (simp_all add: split_beta Let_def)

text \<open>
  Claim C2, as stated, fails. In a batch of two items for professional 7 on 2025-03-03,
  starting from no assignments, the second item gets 10:00: its Slot Calculator call counts
  the one active assignment in the store and nothing else. Counting, in addition to the
  store's active assignments, the triple created by the first item would give a count of 2
  and the start time 12:00.
\<close>

theorem bulk_in_batch_not_counted_counterexample:
  "r_suggestedTime (snd (results (fst (bulkAssignPatients example_getDay
       [example_item 1 7, example_item 3 7] None example_store)) ! 0)) = Some ''08:00''
   \<and> r_suggestedTime (snd (results (fst (bulkAssignPatients example_getDay
       [example_item 1 7, example_item 3 7] None example_store)) ! 1)) = Some ''10:00''
   \<and> active_count (snd (bulkAssignPatients example_getDay [example_item 1 7] None example_store))
       7 ''2025-03-03'' = 1
   \<and> patientCountOnDay (fst (calculateAvailableTimeSlots example_getDay 7 ''2025-03-03'' []
       (snd (bulkAssignPatients example_getDay [example_item 1 7] None example_store)))) = Some 1
   \<and> suggestedTime (fst (calculateAvailableTimeSlots example_getDay 7 ''2025-03-03'' []
       (snd (bulkAssignPatients example_getDay [example_item 1 7] None example_store))))
       = Some ''10:00''
   \<and> patientCountOnDay (fst (calculateAvailableTimeSlots example_getDay 7 ''2025-03-03''
       [\<lparr>m_professional_id = 7, m_scheduled_visit_date = ''2025-03-03'',
         m_scheduled_visit_time = Some ''08:00''\<rparr>]
       (snd (bulkAssignPatients example_getDay [example_item 1 7] None example_store)))) = Some 2
   \<and> suggestedTime (fst (calculateAvailableTimeSlots example_getDay 7 ''2025-03-03''
       [\<lparr>m_professional_id = 7, m_scheduled_visit_date = ''2025-03-03'',
         m_scheduled_visit_time = Some ''08:00''\<rparr>]
       (snd (bulkAssignPatients example_getDay [example_item 1 7] None example_store))))
       = Some ''12:00''"
  by code_simp

text \<open>
  Claim C2, amended. For every batch \<open>pre @ it # post\<close> given to assignBulk, the result entry of
  the item \<open>it\<close> is the result of \<open>smartAssignPatient\<close> on the store as the items before it left
  it; its Slot Calculator call is made with an empty in-batch list on that store, and the
  number of active assignments it finds there for the item's professional and date is the
  number in the store before the batch plus the number of successful items before \<open>it\<close> with
  the same professional and date (each was inserted before the next item is processed). A
  successful item had that count below 4, so capacity is respected within the batch.
\<close>

theorem bulk_item_counts_store_only:
  "(let before = bulkAssignPatients getDay pre assignedById s;
        p = item_professional_id it;
        d = item_date it;
        r = fst (smartAssignPatient getDay (item_patient_id it) p d assignedById (snd before));
        slot = fst (calculateAvailableTimeSlots getDay p d [] (snd (store_call (snd before))));
        n = active_count s p d
            + length (filter (\<lambda>(j, rj). success rj \<and> item_professional_id j = p \<and> item_date j = d)
                        (results (fst before)))
    in results (fst (bulkAssignPatients getDay (pre @ it # post) assignedById s)) ! length pre = (it, r)
     \<and> active_count (snd before) p d = n
     \<and> (success r \<longrightarrow>
          available slot \<and> r_suggestedTime r = suggestedTime slot
          \<and> patientCountOnDay slot = Some n \<and> n < 4)
     \<and> (\<forall>patient. \<not> fst (store_call (snd before))
            \<and> single (filter (\<lambda>x. patient_id x = item_patient_id it) (patients s)) = Some patient
            \<and> \<not> available slot \<longrightarrow> r = failure (reason slot))
     \<and> (\<forall>wh. True \<notin> set (take 2 (outcomes (snd (store_call (snd before)))))
            \<and> single (working_hours_query s p (if getDay d = 0 then 7 else getDay d)) = Some wh
          \<longrightarrow> patientCountOnDay slot = Some n))"
proof -
  let ?before = "bulkAssignPatients getDay pre assignedById s"
  let ?p = "item_professional_id it" and ?d = "item_date it"
  let ?r = "fst (smartAssignPatient getDay (item_patient_id it) ?p ?d assignedById (snd ?before))"
  let ?s1 = "snd (store_call (snd ?before))"
  let ?slot = "fst (calculateAvailableTimeSlots getDay ?p ?d [] ?s1)"
  let ?n = "active_count s ?p ?d
            + length (filter (\<lambda>(j, rj). success rj \<and> item_professional_id j = ?p \<and> item_date j = ?d)
                        (results (fst ?before)))"
  have tables: "patients (snd ?before) = patients s" "working_hours (snd ?before) = working_hours s"
    by (simp_all add: bulkAssignPatients_loop bulk_loop_tables)
  have nth: "results (fst (bulkAssignPatients getDay (pre @ it # post) assignedById s)) ! length pre
             = (it, ?r)"
    by (rule bulk_results_nth)
  have count: "active_count (snd ?before) ?p ?d = ?n"
    by (simp add: bulkAssignPatients_loop bulk_loop_count)
  have count1: "active_count ?s1 ?p ?d = ?n"
    using count by (simp add: active_count_def)
  have ok: "available ?slot \<and> r_suggestedTime ?r = suggestedTime ?slot
            \<and> patientCountOnDay ?slot = Some ?n \<and> ?n < 4" if "success ?r"
  proof -
    from smartAssignPatient_slot [OF that]
    have av: "available ?slot" and t: "r_suggestedTime ?r = suggestedTime ?slot"
      by simp_all
    from calculateAvailableTimeSlots_available [OF av] count1
    have "patientCountOnDay ?slot = Some ?n" "?n < 4"
      by auto
    with av t show ?thesis by simp
  qed
  have unavailable: "?r = failure (reason ?slot)"
    if "\<not> fst (store_call (snd ?before))"
      and "single (filter (\<lambda>x. patient_id x = item_patient_id it) (patients s)) = Some patient"
      and "\<not> available ?slot" for patient
    using that smartAssignPatient_unavailable [of "snd ?before" "item_patient_id it" patient getDay ?p ?d]
    by (simp add: tables)
  have reads: "patientCountOnDay ?slot = Some ?n"
    if "True \<notin> set (take 2 (outcomes ?s1))"
      and "single (working_hours_query s ?p (if getDay ?d = 0 then 7 else getDay ?d)) = Some wh" for wh
  proof -
    have "working_hours_query ?s1 ?p k = working_hours_query s ?p k" for k
      by (simp add: working_hours_query_def tables)
    with that(2) count1 show ?thesis
      unfolding calculateAvailableTimeSlots_reads_ok [OF that(1)]
      by (simp add: Let_def)
  qed
  show ?thesis
    unfolding Let_def using nth count ok unavailable reads by blast
qed


theorem bulk_item_counts_store_only_witness:
  "success (fst (smartAssignPatient example_getDay (item_patient_id (example_item 3 7))
       (item_professional_id (example_item 3 7)) (item_date (example_item 3 7)) None
       (snd (bulkAssignPatients example_getDay [example_item 1 7] None example_store))))
   \<and> results (fst (bulkAssignPatients example_getDay
         ([example_item 1 7] @ example_item 3 7 # [example_item 4 7]) None example_store))
       ! length [example_item 1 7]
       = (example_item 3 7,
          fst (smartAssignPatient example_getDay (item_patient_id (example_item 3 7))
            (item_professional_id (example_item 3 7)) (item_date (example_item 3 7)) None
            (snd (bulkAssignPatients example_getDay [example_item 1 7] None example_store))))
   \<and> active_count (snd (bulkAssignPatients example_getDay [example_item 1 7] None example_store))
         (item_professional_id (example_item 3 7)) (item_date (example_item 3 7)) = 0 + 1
   \<and> patientCountOnDay (fst (calculateAvailableTimeSlots example_getDay
         (item_professional_id (example_item 3 7)) (item_date (example_item 3 7)) []
         (snd (store_call (snd (bulkAssignPatients example_getDay [example_item 1 7] None
                                  example_store)))))) = Some (0 + 1)"
proof -
  note t = bulk_item_counts_store_only [where getDay = example_getDay
      and pre = "[example_item 1 7]" and it = "example_item 3 7" and post = "[example_item 4 7]"
      and assignedById = None and s = example_store, unfolded Let_def]
  have ok: "success (fst (smartAssignPatient example_getDay (item_patient_id (example_item 3 7))
       (item_professional_id (example_item 3 7)) (item_date (example_item 3 7)) None
       (snd (bulkAssignPatients example_getDay [example_item 1 7] None example_store))))"
    by code_simp
  have earlier: "length (filter (\<lambda>(j, rj). success rj
          \<and> item_professional_id j = item_professional_id (example_item 3 7)
          \<and> item_date j = item_date (example_item 3 7))
        (results (fst (bulkAssignPatients example_getDay [example_item 1 7] None example_store)))) = 1"
    by code_simp
  have before: "active_count example_store (item_professional_id (example_item 3 7))
        (item_date (example_item 3 7)) = 0"
    by code_simp
  from t ok show ?thesis
    unfolding earlier before by blast
qed

subsection \<open>Working hours and visit duration\<close>

lemma CARE_DURATION_bound: "(k, dur) \<in> set CARE_DURATION \<Longrightarrow> dur \<le> 60"
  by (auto simp: CARE_DURATION_def)

lemma care_duration_lookup_bound: "care_duration_lookup k = Some dur \<Longrightarrow> dur \<le> 60"
  by (auto simp: care_duration_lookup_def split: option.splits if_splits
           dest!: map_of_SomeD CARE_DURATION_bound)

lemma getCareDuration_bound:
  "getCareDuration k override = Some dur \<Longrightarrow> (\<forall>e. override = Some e \<longrightarrow> e \<le> 0) \<Longrightarrow> dur \<le> 60"
  by (auto simp: getCareDuration_def care_duration_lookup_bound split: option.splits if_splits)

lemma not_past_day_end:
  "\<not> past_day_end (Some t) (Some e) \<Longrightarrow> t + 60 \<le> e"
  by (simp add: past_day_end_def)

text \<open>A successful call, seen from any store with the same patients and working hours.\<close>

lemma smartAssignPatient_within_hours:
  assumes ok: "success (fst (smartAssignPatient getDay patientId p d assignedById s'))"
    and same: "patients s' = patients s" "working_hours s' = working_hours s"
    and wh: "single (working_hours_query s p (if getDay d = 0 then 7 else getDay d)) = Some wh"
    and times: "minutes_of_day (start_time wh) = Some dayStart"
               "minutes_of_day (end_time wh) = Some dayEnd"
    and pt: "single (filter (\<lambda>x. patient_id x = patientId) (patients s)) = Some patient"
  shows "\<exists>startTime t.
           r_suggestedTime (fst (smartAssignPatient getDay patientId p d assignedById s')) = Some startTime
         \<and> minutes_of_day startTime = Some t
         \<and> dayStart \<le> t \<and> t + 60 \<le> dayEnd
         \<and> (\<forall>dur. getCareDuration (care_needed patient) (estimated_care_duration patient) = Some dur
                  \<and> (dur \<le> 60 \<or> (\<forall>e. estimated_care_duration patient = Some e \<longrightarrow> e \<le> 0))
               \<longrightarrow> t + dur \<le> dayEnd)"
proof -
  have q: "working_hours_query s' p k = working_hours_query s p k" for k
    by (simp add: working_hours_query_def same)
  from smartAssignPatient_success [OF ok] wh times q
  have e: "\<not> past_day_end (Some (dayStart + active_count s' p d * 120)) (Some dayEnd)"
    and st: "r_suggestedTime (fst (smartAssignPatient getDay patientId p d assignedById s'))
             = Some (format_time (Some (dayStart + active_count s' p d * 120)))"
    by auto
  let ?t = "dayStart + active_count s' p d * 120"
  have le: "?t + 60 \<le> dayEnd"
    using e by (rule not_past_day_end)
  have "t' + dur \<le> dayEnd"
    if "getCareDuration (care_needed patient) (estimated_care_duration patient) = Some dur"
      and "dur \<le> 60 \<or> (\<forall>e. estimated_care_duration patient = Some e \<longrightarrow> e \<le> 0)"
      and "t' = ?t" for dur t'
  proof -
    from that(1,2) have "dur \<le> 60"
      using getCareDuration_bound by blast
    with le that(3) show ?thesis by simp
  qed
  with st le show ?thesis
    by (auto simp: minutes_of_day_format_time)
qed

lemma bulk_loop_entry:
  "(item, r) \<in> set (fst (bulk_loop getDay assignedById items res mem s)) \<Longrightarrow>
   (item, r) \<in> set res
   \<or> (\<exists>s'. patients s' = patients s \<and> working_hours s' = working_hours s
           \<and> r = fst (smartAssignPatient getDay (item_patient_id item) (item_professional_id item)
                         (item_date item) assignedById s'))"
proof (induction items arbitrary: res mem s)
  case Nil
  then show ?case by simp
next
  case (Cons x items)
  let ?step = "smartAssignPatient getDay (item_patient_id x) (item_professional_id x)
                 (item_date x) assignedById s"
  from Cons.prems obtain mem' where
    "(item, r) \<in> set (fst (bulk_loop getDay assignedById items (res @ [(x, fst ?step)]) mem' (snd ?step)))"
    by (auto simp: split_beta Let_def)
  from Cons.IH [OF this] show ?case
    by (auto simp: split_beta)
qed

text \<open>
  Claim C3, as stated, fails: professional 8 works from 08:00 to 09:30 and patient 2 has a
  duration override of 120 minutes; the call succeeds with the start time 08:00 and a
  schedule entry ending at 10:00, and 480 + 120 minutes is past 570.
\<close>

theorem start_plus_duration_past_end_counterexample:
  "success (fst (smartAssignPatient example_getDay 2 8 ''2025-03-03'' None example_store))
   \<and> r_suggestedTime (fst (smartAssignPatient example_getDay 2 8 ''2025-03-03'' None example_store))
       = Some ''08:00''
   \<and> map s_end_time (schedules (snd (smartAssignPatient example_getDay 2 8 ''2025-03-03'' None example_store)))
       = [''10:00'']
   \<and> working_hours_query example_store 8 1
       = [\<lparr>wh_professional_id = 8, weekday = 1, start_time = ''08:00'', end_time = ''09:30''\<rparr>]
   \<and> getCareDuration (care_needed (example_patient 2 (Some 120)))
         (estimated_care_duration (example_patient 2 (Some 120))) = Some 120
   \<and> minutes_of_day ''08:00'' = Some 480
   \<and> minutes_of_day ''09:30'' = Some 570
   \<and> \<not> (480 + 120 \<le> (570 :: nat))"
  by code_simp

text \<open>
  Claim C3, amended. For every assignment committed through assignOne or assignBulk, when the
  working-hours texts of the professional for that weekday read as the minutes \<open>dayStart\<close> and
  \<open>dayEnd\<close>: the computed start time, read back from the returned text, is not before
  \<open>dayStart\<close>, and the start time plus 60 minutes does not exceed \<open>dayEnd\<close>. Hence the start time
  plus the patient's resolved visit duration does not exceed \<open>dayEnd\<close> whenever that duration is
  at most 60 minutes, which is the case for every duration resolved without a positive
  override (from the table or the default).
\<close>

theorem committed_start_within_working_hours:
  assumes committed:
      "r = fst (smartAssignPatient getDay (item_patient_id item) (item_professional_id item)
                  (item_date item) assignedById s)
       \<or> (item, r) \<in> set (results (fst (bulkAssignPatients getDay items assignedById s)))"
    and ok: "success r"
    and wh: "single (working_hours_query s (item_professional_id item)
                (if getDay (item_date item) = 0 then 7 else getDay (item_date item))) = Some wh"
    and times: "minutes_of_day (start_time wh) = Some dayStart"
               "minutes_of_day (end_time wh) = Some dayEnd"
    and pt: "single (filter (\<lambda>x. patient_id x = item_patient_id item) (patients s)) = Some patient"
  shows "\<exists>startTime t.
           r_suggestedTime r = Some startTime
         \<and> minutes_of_day startTime = Some t
         \<and> dayStart \<le> t \<and> t + 60 \<le> dayEnd
         \<and> (\<forall>dur. getCareDuration (care_needed patient) (estimated_care_duration patient) = Some dur
                  \<and> (dur \<le> 60 \<or> (\<forall>e. estimated_care_duration patient = Some e \<longrightarrow> e \<le> 0))
               \<longrightarrow> t + dur \<le> dayEnd)"
proof -
  from committed obtain s' where s': "patients s' = patients s" "working_hours s' = working_hours s"
    and r: "r = fst (smartAssignPatient getDay (item_patient_id item) (item_professional_id item)
                       (item_date item) assignedById s')"
  proof
    assume "r = fst (smartAssignPatient getDay (item_patient_id item) (item_professional_id item)
                  (item_date item) assignedById s)"
    then show ?thesis using that [of s] by simp
  next
    assume "(item, r) \<in> set (results (fst (bulkAssignPatients getDay items assignedById s)))"
    then have "(item, r) \<in> set (fst (bulk_loop getDay assignedById items [] [] s))"
      by (simp add: bulkAssignPatients_loop)
    from bulk_loop_entry [OF this] show ?thesis using that by auto
  qed
  from ok r have "success (fst (smartAssignPatient getDay (item_patient_id item)
      (item_professional_id item) (item_date item) assignedById s'))"
    by simp
  from smartAssignPatient_within_hours [OF this s' wh times pt] r show ?thesis
    by simp
qed

theorem committed_start_within_working_hours_witness:
  "success (fst (smartAssignPatient example_getDay 1 7 ''2025-03-03'' None example_store))
   \<and> (\<exists>startTime t.
         r_suggestedTime (fst (smartAssignPatient example_getDay 1 7 ''2025-03-03'' None example_store))
           = Some startTime
       \<and> minutes_of_day startTime = Some t \<and> 480 \<le> t \<and> t + 60 \<le> 960
       \<and> (\<forall>dur. getCareDuration (Some ''Wound Dressing'') None = Some dur
                \<and> (dur \<le> 60 \<or> (\<forall>e. (None :: int option) = Some e \<longrightarrow> e \<le> 0))
             \<longrightarrow> t + dur \<le> 960))
   \<and> getCareDuration (Some ''Wound Dressing'') None = Some 45
   \<and> success (snd (results (fst (bulkAssignPatients example_getDay
         [example_item 1 7, example_item 3 7] None example_store)) ! 1))
   \<and> (\<exists>startTime t.
         r_suggestedTime (snd (results (fst (bulkAssignPatients example_getDay
           [example_item 1 7, example_item 3 7] None example_store)) ! 1)) = Some startTime
       \<and> minutes_of_day startTime = Some t \<and> 480 \<le> t \<and> t + 60 \<le> 960)"
proof -
  let ?r = "fst (smartAssignPatient example_getDay 1 7 ''2025-03-03'' None example_store)"
  let ?items = "[example_item 1 7, example_item 3 7]"
  let ?b = "snd (results (fst (bulkAssignPatients example_getDay ?items None example_store)) ! 1)"
  let ?wh = "\<lparr>wh_professional_id = 7, weekday = 1, start_time = ''08:00:00'',
              end_time = ''16:00:00''\<rparr>"
  have ok: "success ?r"
    by code_simp
  have committed: "?r = fst (smartAssignPatient example_getDay (item_patient_id (example_item 1 7))
        (item_professional_id (example_item 1 7)) (item_date (example_item 1 7)) None example_store)
      \<or> (example_item 1 7, ?r) \<in> set (results (fst (bulkAssignPatients example_getDay [] None example_store)))"
    by (simp add: example_item_def)
  have ok_bulk: "success ?b"
    by code_simp
  have committed_bulk: "?b = fst (smartAssignPatient example_getDay (item_patient_id (example_item 3 7))
        (item_professional_id (example_item 3 7)) (item_date (example_item 3 7)) None example_store)
      \<or> (example_item 3 7, ?b) \<in> set (results (fst (bulkAssignPatients example_getDay ?items None example_store)))"
  proof (rule disjI2)
    show "(example_item 3 7, ?b)
          \<in> set (results (fst (bulkAssignPatients example_getDay ?items None example_store)))"
      by code_simp
  qed
  have wh: "single (working_hours_query example_store (item_professional_id (example_item k 7))
                (if example_getDay (item_date (example_item k 7)) = 0 then 7
                 else example_getDay (item_date (example_item k 7)))) = Some ?wh" for k
    by (simp add: example_item_def example_store_def example_getDay_def working_hours_query_def
          single_def)
  have times: "minutes_of_day (start_time ?wh) = Some 480" "minutes_of_day (end_time ?wh) = Some 960"
    by code_simp+
  have pt: "single (filter (\<lambda>x. patient_id x = item_patient_id (example_item 1 7))
                      (patients example_store)) = Some (example_patient 1 None)"
    "single (filter (\<lambda>x. patient_id x = item_patient_id (example_item 3 7))
                      (patients example_store)) = Some (example_patient 3 None)"
    by (simp_all add: example_item_def example_store_def example_patient_def single_def)
  have dur: "getCareDuration (Some ''Wound Dressing'') None = Some 45"
    by code_simp
  from committed_start_within_working_hours [OF committed ok wh times pt(1)]
  have one: "\<exists>startTime t.
         r_suggestedTime ?r = Some startTime
       \<and> minutes_of_day startTime = Some t \<and> 480 \<le> t \<and> t + 60 \<le> 960
       \<and> (\<forall>dur. getCareDuration (Some ''Wound Dressing'') None = Some dur
                \<and> (dur \<le> 60 \<or> (\<forall>e. (None :: int option) = Some e \<longrightarrow> e \<le> 0))
             \<longrightarrow> t + dur \<le> 960)"
    by (simp add: example_patient_def)
  from committed_start_within_working_hours [OF committed_bulk ok_bulk wh times pt(2)]
  have two: "\<exists>startTime t.
         r_suggestedTime ?b = Some startTime
       \<and> minutes_of_day startTime = Some t \<and> 480 \<le> t \<and> t + 60 \<le> 960"
    by blast
  from ok dur ok_bulk one two show ?thesis
    by blast
qed

end
